theory Spec2Isabelle
  imports Complex_Main
begin

section \<open>Numbers, vectors and the raymath helpers\<close>

text \<open>
  The game (src/Main.cpp) computes with C++ \<open>float\<close> and \<open>int\<close>. The \<open>float\<close> arithmetic
  is idealised as exact arithmetic on \<open>real\<close>: no rounding, no infinities, no NaN. The
  \<open>int\<close> values (hit-points, damage, screen size) are \<open>int\<close>; hit-points start at no more
  than 1000 and a single damage value is at most 150, so no 32-bit overflow is in reach.

  \<open>Vector2\<close> and the functions on it come from raylib's raymath.h and are written out
  here as that header defines them. raylib's constant \<open>PI\<close> is \<open>pi\<close>.
\<close>

record Vector2 =
  x :: real
  y :: real

definition Vector2Add :: "Vector2 \<Rightarrow> Vector2 \<Rightarrow> Vector2" where
  "Vector2Add v1 v2 = \<lparr>x = x v1 + x v2, y = y v1 + y v2\<rparr>"

definition Vector2Subtract :: "Vector2 \<Rightarrow> Vector2 \<Rightarrow> Vector2" where
  "Vector2Subtract v1 v2 = \<lparr>x = x v1 - x v2, y = y v1 - y v2\<rparr>"

definition Vector2Scale :: "Vector2 \<Rightarrow> real \<Rightarrow> Vector2" where
  "Vector2Scale v s = \<lparr>x = x v * s, y = y v * s\<rparr>"

definition Vector2Distance :: "Vector2 \<Rightarrow> Vector2 \<Rightarrow> real" where
  "Vector2Distance v1 v2 =
     sqrt ((x v1 - x v2) * (x v1 - x v2) + (y v1 - y v2) * (y v1 - y v2))"

definition Vector2Normalize :: "Vector2 \<Rightarrow> Vector2" where
  "Vector2Normalize v =
     (let len = sqrt (x v * x v + y v * y v)
      in if len > 0 then \<lparr>x = x v * (1 / len), y = y v * (1 / len)\<rparr>
         else \<lparr>x = 0, y = 0\<rparr>)"

text \<open>
  \<open>fmodf a b\<close> of the C library, for \<open>b \<noteq> 0\<close>: the remainder of the division truncated
  towards zero, so the result has the sign of \<open>a\<close>.
\<close>

definition truncf :: "real \<Rightarrow> int" where
  "truncf r = (if 0 \<le> r then \<lfloor>r\<rfloor> else \<lceil>r\<rceil>)"

definition fmodf :: "real \<Rightarrow> real \<Rightarrow> real" where
  "fmodf a b = a - b * real_of_int (truncf (a / b))"

text \<open>
  \<open>Utils::RandomFloat(min, max)\<close> is \<open>min + float(rand()) / RAND_MAX * (max - min)\<close>.
  The value \<open>r\<close> returned by \<open>rand()\<close> is an input of the model, and so is the
  implementation's \<open>RAND_MAX\<close>.
\<close>

definition RandomFloat :: "int \<Rightarrow> int \<Rightarrow> real \<Rightarrow> real \<Rightarrow> real" where
  "RandomFloat RAND_MAX r mn mx = mn + real_of_int r / real_of_int RAND_MAX * (mx - mn)"

section \<open>Transform, physics, renderable, renderer\<close>

record TransformA =
  position :: Vector2
  rotation :: real

record Physics =
  velocity :: Vector2
  rotationSpeed :: real

datatype Size = SMALL | MEDIUM | LARGE | GIGA

text \<open>The enumerator values: \<open>SMALL = 1, MEDIUM = 2, LARGE = 4, GIGA = 10\<close>.\<close>

fun Size_value :: "Size \<Rightarrow> int" where
  "Size_value SMALL = 1"
| "Size_value MEDIUM = 2"
| "Size_value LARGE = 4"
| "Size_value GIGA = 10"

record Renderable =
  sizeR :: Size

text \<open>The renderer singleton: only the screen size set by \<open>Init\<close> matters here.\<close>

record Renderer =
  screenW :: int
  screenH :: int

definition Width :: "Renderer \<Rightarrow> int" where
  "Width rnd = screenW rnd"

definition Height :: "Renderer \<Rightarrow> int" where
  "Height rnd = screenH rnd"

section \<open>Asteroids\<close>

record Asteroid =
  transform :: TransformA
  physics :: Physics
  render :: Renderable
  baseDamage :: int
  hp :: int

definition Asteroid_GetPosition :: "Asteroid \<Rightarrow> Vector2" where
  "Asteroid_GetPosition a = position (Asteroid.transform a)"

definition Asteroid_GetRadius :: "Asteroid \<Rightarrow> real" where
  "Asteroid_GetRadius a = 16 * real_of_int (Size_value (sizeR (Asteroid.render a)))"

definition Asteroid_GetDamage :: "Asteroid \<Rightarrow> int" where
  "Asteroid_GetDamage a = Asteroid.baseDamage a * Size_value (sizeR (Asteroid.render a))"

definition Asteroid_GetSize :: "Asteroid \<Rightarrow> int" where
  "Asteroid_GetSize a = Size_value (sizeR (Asteroid.render a))"

text \<open>
  The \<open>default: return 1\<close> of the source's switch is not reachable: the four enumerators
  are all the values \<open>render.size\<close> is ever given.
\<close>

definition Asteroid_GetMaxHP :: "Asteroid \<Rightarrow> int" where
  "Asteroid_GetMaxHP a =
     (case sizeR (Asteroid.render a) of
        SMALL \<Rightarrow> 25 | MEDIUM \<Rightarrow> 100 | LARGE \<Rightarrow> 300 | GIGA \<Rightarrow> 1000)"

definition Asteroid_TakeDamage :: "Asteroid \<Rightarrow> int \<Rightarrow> Asteroid" where
  "Asteroid_TakeDamage a dmg = a\<lparr>Asteroid.hp := Asteroid.hp a - dmg\<rparr>"

definition Asteroid_IsDead :: "Asteroid \<Rightarrow> bool" where
  "Asteroid_IsDead a = (Asteroid.hp a \<le> 0)"

text \<open>
  \<open>Asteroid::Update(dt)\<close> moves and turns the asteroid, and returns \<open>false\<close> when the new
  position is outside the screen widened by the radius. The model returns the updated
  asteroid together with that boolean.
\<close>

definition Asteroid_Update :: "Renderer \<Rightarrow> real \<Rightarrow> Asteroid \<Rightarrow> Asteroid \<times> bool" where
  "Asteroid_Update rnd dt a =
     (let a1 = a\<lparr>Asteroid.transform := (Asteroid.transform a)
                   \<lparr>position := Vector2Add (position (Asteroid.transform a))
                                  (Vector2Scale (velocity (Asteroid.physics a)) dt)\<rparr>\<rparr>;
          a2 = a1\<lparr>Asteroid.transform := (Asteroid.transform a1)
                   \<lparr>rotation := rotation (Asteroid.transform a1)
                                  + rotationSpeed (Asteroid.physics a1) * dt\<rparr>\<rparr>;
          p = position (Asteroid.transform a2)
      in if x p < - Asteroid_GetRadius a2
            \<or> x p > real_of_int (Width rnd) + Asteroid_GetRadius a2
            \<or> y p < - Asteroid_GetRadius a2
            \<or> y p > real_of_int (Height rnd) + Asteroid_GetRadius a2
         then (a2, False)
         else (a2, True))"

text \<open>
  The random draws one asteroid construction consumes, in the order \<open>init\<close> makes them:
  \<open>GetRandomValue(0, 3)\<close> for the edge, then the values of \<open>rand()\<close> behind the six
  \<open>RandomFloat\<close> calls.
\<close>

record SpawnDraws =
  edge :: int
  r_along :: int
  r_ang :: int
  r_rad :: int
  r_speed :: int
  r_rotSpeed :: int
  r_rotation :: int

definition SPEED_MIN :: real where "SPEED_MIN = 125"
definition SPEED_MAX :: real where "SPEED_MAX = 250"
definition ROT_MIN :: real where "ROT_MIN = 50"
definition ROT_MAX :: real where "ROT_MAX = 240"

text \<open>
  \<open>Asteroid::init\<close>. It reads the radius of the object as it is when \<open>init\<close> runs.
\<close>

definition init :: "int \<Rightarrow> int \<Rightarrow> int \<Rightarrow> SpawnDraws \<Rightarrow> Asteroid \<Rightarrow> Asteroid" where
  "init RAND_MAX sw sh d a =
     (let pos =
            (if edge d = 0 then
               \<lparr>x = RandomFloat RAND_MAX (r_along d) 0 (real_of_int sw),
                y = - Asteroid_GetRadius a\<rparr>
             else if edge d = 1 then
               \<lparr>x = real_of_int sw + Asteroid_GetRadius a,
                y = RandomFloat RAND_MAX (r_along d) 0 (real_of_int sh)\<rparr>
             else if edge d = 2 then
               \<lparr>x = RandomFloat RAND_MAX (r_along d) 0 (real_of_int sw),
                y = real_of_int sh + Asteroid_GetRadius a\<rparr>
             else
               \<lparr>x = - Asteroid_GetRadius a,
                y = RandomFloat RAND_MAX (r_along d) 0 (real_of_int sh)\<rparr>);
          maxOff = min (real_of_int sw) (real_of_int sh) * (1 / 10);
          ang = RandomFloat RAND_MAX (r_ang d) 0 (2 * pi);
          rad = RandomFloat RAND_MAX (r_rad d) 0 maxOff;
          center = \<lparr>x = real_of_int sw * (1 / 2) + cos ang * rad,
                    y = real_of_int sh * (1 / 2) + sin ang * rad\<rparr>;
          dir = Vector2Normalize (Vector2Subtract center pos);
          vel = Vector2Scale dir (RandomFloat RAND_MAX (r_speed d) SPEED_MIN SPEED_MAX);
          rs = RandomFloat RAND_MAX (r_rotSpeed d) ROT_MIN ROT_MAX;
          rot = RandomFloat RAND_MAX (r_rotation d) 0 360
      in a\<lparr>Asteroid.transform := \<lparr>position = pos, rotation = rot\<rparr>,
            Asteroid.physics := \<lparr>velocity = vel, rotationSpeed = rs\<rparr>\<rparr>)"

text \<open>
  The base-class constructor \<open>Asteroid(screenW, screenH)\<close>: the members have their default
  initialisers (\<open>render.size = SMALL\<close>, \<open>baseDamage = 0\<close>, zero transform and physics) and
  then \<open>init\<close> runs. \<open>hp\<close> has no initialiser in the source; every subclass constructor
  assigns it before anything reads it, and the model starts it at 0.
\<close>

definition Asteroid_ctor :: "int \<Rightarrow> int \<Rightarrow> int \<Rightarrow> SpawnDraws \<Rightarrow> Asteroid" where
  "Asteroid_ctor RAND_MAX sw sh d =
     init RAND_MAX sw sh d
       \<lparr>Asteroid.transform = \<lparr>position = \<lparr>x = 0, y = 0\<rparr>, rotation = 0\<rparr>,
        Asteroid.physics = \<lparr>velocity = \<lparr>x = 0, y = 0\<rparr>, rotationSpeed = 0\<rparr>,
        Asteroid.render = \<lparr>sizeR = SMALL\<rparr>,
        Asteroid.baseDamage = 0,
        Asteroid.hp = 0\<rparr>"

text \<open>
  The four subclasses differ in their constructor bodies (and in the polygon they draw,
  which is outside the model). Each body runs after the base-class constructor.
\<close>

definition TriangleAsteroid :: "int \<Rightarrow> int \<Rightarrow> int \<Rightarrow> SpawnDraws \<Rightarrow> Asteroid" where
  "TriangleAsteroid RAND_MAX w h d =
     (let a0 = Asteroid_ctor RAND_MAX w h d;
          a1 = a0\<lparr>Asteroid.baseDamage := 5\<rparr>;
          a2 = a1\<lparr>Asteroid.render := \<lparr>sizeR = SMALL\<rparr>\<rparr>
      in a2\<lparr>Asteroid.hp := Asteroid_GetMaxHP a2\<rparr>)"

definition SquareAsteroid :: "int \<Rightarrow> int \<Rightarrow> int \<Rightarrow> SpawnDraws \<Rightarrow> Asteroid" where
  "SquareAsteroid RAND_MAX w h d =
     (let a0 = Asteroid_ctor RAND_MAX w h d;
          a1 = a0\<lparr>Asteroid.baseDamage := 10\<rparr>;
          a2 = a1\<lparr>Asteroid.render := \<lparr>sizeR = MEDIUM\<rparr>\<rparr>
      in a2\<lparr>Asteroid.hp := Asteroid_GetMaxHP a2\<rparr>)"

definition PentagonAsteroid :: "int \<Rightarrow> int \<Rightarrow> int \<Rightarrow> SpawnDraws \<Rightarrow> Asteroid" where
  "PentagonAsteroid RAND_MAX w h d =
     (let a0 = Asteroid_ctor RAND_MAX w h d;
          a1 = a0\<lparr>Asteroid.baseDamage := 15\<rparr>;
          a2 = a1\<lparr>Asteroid.render := \<lparr>sizeR = LARGE\<rparr>\<rparr>
      in a2\<lparr>Asteroid.hp := Asteroid_GetMaxHP a2\<rparr>)"

definition GigaAsteroid :: "int \<Rightarrow> int \<Rightarrow> int \<Rightarrow> SpawnDraws \<Rightarrow> Asteroid" where
  "GigaAsteroid RAND_MAX w h d =
     (let a0 = Asteroid_ctor RAND_MAX w h d;
          a1 = a0\<lparr>Asteroid.baseDamage := 10\<rparr>;
          a2 = a1\<lparr>Asteroid.render := \<lparr>sizeR = GIGA\<rparr>\<rparr>
      in a2\<lparr>Asteroid.hp := Asteroid_GetMaxHP a2\<rparr>)"

datatype AsteroidShape = TRIANGLE | SQUARE | PENTAGON | GIGA_SHAPE | RANDOM

text \<open>
  \<open>MakeAsteroid\<close>. In the \<open>RANDOM\<close> case the source draws \<open>GetRandomValue(0, 99)\<close>, here
  \<open>randomShape\<close>, and calls itself with the shape drawn.
\<close>

definition MakeAsteroid ::
  "int \<Rightarrow> int \<Rightarrow> int \<Rightarrow> AsteroidShape \<Rightarrow> int \<Rightarrow> SpawnDraws \<Rightarrow> Asteroid" where
  "MakeAsteroid RAND_MAX w h shape randomShape d =
     (case shape of
        TRIANGLE \<Rightarrow> TriangleAsteroid RAND_MAX w h d
      | SQUARE \<Rightarrow> SquareAsteroid RAND_MAX w h d
      | PENTAGON \<Rightarrow> PentagonAsteroid RAND_MAX w h d
      | GIGA_SHAPE \<Rightarrow> GigaAsteroid RAND_MAX w h d
      | RANDOM \<Rightarrow>
          (if randomShape < 45 then TriangleAsteroid RAND_MAX w h d
           else if randomShape < 75 then SquareAsteroid RAND_MAX w h d
           else if randomShape < 95 then PentagonAsteroid RAND_MAX w h d
           else GigaAsteroid RAND_MAX w h d))"

section \<open>Projectiles\<close>

datatype WeaponType = LASER | BULLET | MINE | COUNT

text \<open>
  The enumerator values \<open>0, 1, 2, 3\<close>, and the cast back from \<open>int\<close>. The only cast in
  the source is that of the weapon switch, whose argument is a remainder modulo 3.
\<close>

fun WeaponType_value :: "WeaponType \<Rightarrow> int" where
  "WeaponType_value LASER = 0"
| "WeaponType_value BULLET = 1"
| "WeaponType_value MINE = 2"
| "WeaponType_value COUNT = 3"

definition WeaponType_cast :: "int \<Rightarrow> WeaponType" where
  "WeaponType_cast i = (if i = 0 then LASER else if i = 1 then BULLET
                         else if i = 2 then MINE else COUNT)"

record Projectile =
  transform :: TransformA
  physics :: Physics
  baseDamage :: int
  type :: WeaponType
  life :: real

definition Projectile_ctor ::
  "Vector2 \<Rightarrow> Vector2 \<Rightarrow> int \<Rightarrow> WeaponType \<Rightarrow> real \<Rightarrow> real \<Rightarrow> Projectile" where
  "Projectile_ctor pos vel dmg wt rot time =
     \<lparr>Projectile.transform = \<lparr>position = pos, rotation = rot\<rparr>,
      Projectile.physics = \<lparr>velocity = vel, rotationSpeed = 0\<rparr>,
      Projectile.baseDamage = dmg,
      Projectile.type = wt,
      Projectile.life = time\<rparr>"

text \<open>
  \<open>Projectile::Update(dt)\<close> returns \<open>true\<close> when the projectile is to be removed. The
  model returns the updated projectile together with that boolean.
\<close>

definition Projectile_Update :: "Renderer \<Rightarrow> real \<Rightarrow> Projectile \<Rightarrow> Projectile \<times> bool" where
  "Projectile_Update rnd dt p =
     (let p1 = p\<lparr>Projectile.transform := (Projectile.transform p)
                   \<lparr>position := Vector2Add (position (Projectile.transform p))
                                  (Vector2Scale (velocity (Projectile.physics p)) dt)\<rparr>\<rparr>;
          p2 = p1\<lparr>Projectile.life := Projectile.life p1 - dt\<rparr>;
          q = position (Projectile.transform p2)
      in if x q < 0 \<or> x q > real_of_int (Width rnd)
            \<or> y q < 0 \<or> y q > real_of_int (Height rnd)
         then (p2, True)
         else if Projectile.life p2 \<le> 0 then (p2, True)
         else (p2, False))"

definition Projectile_GetPosition :: "Projectile \<Rightarrow> Vector2" where
  "Projectile_GetPosition p = position (Projectile.transform p)"

text \<open>
  \<open>Projectile::GetRadius\<close> returns nothing in its \<open>default\<close> branch: for the type
  \<open>COUNT\<close> the source has no defined result, which the model writes as \<open>None\<close>.
\<close>

definition Projectile_GetRadius :: "Projectile \<Rightarrow> real option" where
  "Projectile_GetRadius p =
     (case Projectile.type p of
        LASER \<Rightarrow> Some 2 | BULLET \<Rightarrow> Some 5 | MINE \<Rightarrow> Some 10 | COUNT \<Rightarrow> None)"

definition Projectile_GetDamage :: "Projectile \<Rightarrow> int" where
  "Projectile_GetDamage p = Projectile.baseDamage p"

definition MakeProjectile :: "WeaponType \<Rightarrow> Vector2 \<Rightarrow> real \<Rightarrow> real \<Rightarrow> Projectile" where
  "MakeProjectile wt pos speed rot =
     (let vel = \<lparr>x = cos rot * speed, y = sin rot * speed\<rparr>
      in if wt = LASER then Projectile_ctor pos vel 17 wt rot 10
         else if wt = BULLET then Projectile_ctor pos vel 25 wt rot 10
         else Projectile_ctor pos \<lparr>x = 0, y = 0\<rparr> 150 wt rot 10)"

section \<open>Ships\<close>

record Ship =
  transform :: TransformA
  hp :: int
  speed :: real
  rSpeed :: real
  alive :: bool
  fireRateLaser :: real
  fireRateBullet :: real
  fireRateMine :: real
  spacingLaser :: real
  spacingBullet :: real

text \<open>
  The constructor \<open>Ship(screenW, screenH)\<close>. The rotation keeps its default initialiser,
  zero. There is no statement in it besides the assignments below.
\<close>

definition Ship_ctor :: "int \<Rightarrow> int \<Rightarrow> Ship" where
  "Ship_ctor sw sh =
     \<lparr>Ship.transform = \<lparr>position = \<lparr>x = real_of_int sw * (1 / 2),
                                       y = real_of_int sh * (1 / 2)\<rparr>,
                         rotation = 0\<rparr>,
      Ship.hp = 100,
      speed = 250,
      rSpeed = 70,
      alive = True,
      fireRateLaser = 18,
      fireRateBullet = 12,
      fireRateMine = 2,
      spacingLaser = 40,
      spacingBullet = 20\<rparr>"

definition Ship_TakeDamage :: "'a Ship_scheme \<Rightarrow> int \<Rightarrow> 'a Ship_scheme" where
  "Ship_TakeDamage s dmg =
     (if \<not> alive s then s
      else let s1 = s\<lparr>Ship.hp := Ship.hp s - dmg\<rparr>
           in if Ship.hp s1 \<le> 0 then s1\<lparr>alive := False\<rparr> else s1)"

definition IsAlive :: "'a Ship_scheme \<Rightarrow> bool" where
  "IsAlive s = alive s"

definition Ship_GetPosition :: "'a Ship_scheme \<Rightarrow> Vector2" where
  "Ship_GetPosition s = position (Ship.transform s)"

definition GetHP :: "'a Ship_scheme \<Rightarrow> int" where
  "GetHP s = Ship.hp s"

text \<open>
  \<open>Ship::GetFireRate\<close> returns nothing in its \<open>default\<close> branch either: \<open>None\<close> for
  \<open>COUNT\<close>.
\<close>

definition GetFireRate :: "'a Ship_scheme \<Rightarrow> WeaponType \<Rightarrow> real option" where
  "GetFireRate s wt =
     (case wt of
        LASER \<Rightarrow> Some (fireRateLaser s)
      | BULLET \<Rightarrow> Some (fireRateBullet s)
      | MINE \<Rightarrow> Some (fireRateMine s)
      | COUNT \<Rightarrow> None)"

definition GetSpacing :: "'a Ship_scheme \<Rightarrow> WeaponType \<Rightarrow> real" where
  "GetSpacing s wt = (if wt = LASER then spacingLaser s else spacingBullet s)"

definition GetAngle :: "'a Ship_scheme \<Rightarrow> real" where
  "GetAngle s = rotation (Ship.transform s)"

text \<open>
  Of the texture that \<open>LoadTexture\<close> returns only the size is read. The texture is an
  input of the model.
\<close>

record Texture2D =
  width :: int
  height :: int

record PlayerShip = Ship +
  texture :: Texture2D
  scale :: real

definition PlayerShip_ctor :: "int \<Rightarrow> int \<Rightarrow> Texture2D \<Rightarrow> PlayerShip" where
  "PlayerShip_ctor w h tex = Ship.extend (Ship_ctor w h) (PlayerShip.fields tex (1 / 4))"

definition PlayerShip_GetRadius :: "PlayerShip \<Rightarrow> real" where
  "PlayerShip_GetRadius s = (real_of_int (height (texture s)) * scale s) * (1 / 2)"

text \<open>The keyboard state of one frame, as raylib's two queries give it.\<close>

datatype Key = KEY_W | KEY_S | KEY_A | KEY_D | KEY_Q | KEY_E | KEY_SPACE | KEY_R
  | KEY_ONE | KEY_TWO | KEY_THREE | KEY_FOUR | KEY_FIVE | KEY_TAB

record Keyboard =
  IsKeyDown :: "Key \<Rightarrow> bool"
  IsKeyPressed :: "Key \<Rightarrow> bool"

definition move_y :: "real \<Rightarrow> PlayerShip \<Rightarrow> PlayerShip" where
  "move_y d s = s\<lparr>Ship.transform := (Ship.transform s)
                   \<lparr>position := (position (Ship.transform s))
                       \<lparr>y := y (position (Ship.transform s)) + d\<rparr>\<rparr>\<rparr>"

definition move_x :: "real \<Rightarrow> PlayerShip \<Rightarrow> PlayerShip" where
  "move_x d s = s\<lparr>Ship.transform := (Ship.transform s)
                   \<lparr>position := (position (Ship.transform s))
                       \<lparr>x := x (position (Ship.transform s)) + d\<rparr>\<rparr>\<rparr>"

definition turn :: "real \<Rightarrow> PlayerShip \<Rightarrow> PlayerShip" where
  "turn d s = s\<lparr>Ship.transform := (Ship.transform s)
                 \<lparr>rotation := rotation (Ship.transform s) + d\<rparr>\<rparr>"

text \<open>\<open>PlayerShip::Update(dt)\<close>: six independent key tests when alive, a drift down when not.\<close>

definition PlayerShip_Update :: "Keyboard \<Rightarrow> real \<Rightarrow> PlayerShip \<Rightarrow> PlayerShip" where
  "PlayerShip_Update kb dt s =
     (if alive s then
        (let s1 = (if IsKeyDown kb KEY_W then move_y (- (speed s * dt)) s else s);
             s2 = (if IsKeyDown kb KEY_S then move_y (speed s1 * dt) s1 else s1);
             s3 = (if IsKeyDown kb KEY_A then move_x (- (speed s2 * dt)) s2 else s2);
             s4 = (if IsKeyDown kb KEY_D then move_x (speed s3 * dt) s3 else s3);
             s5 = (if IsKeyDown kb KEY_Q then turn (- (rSpeed s4 * dt)) s4 else s4)
         in if IsKeyDown kb KEY_E then turn (rSpeed s5 * dt) s5 else s5)
      else move_y (speed s * dt) s)"

section \<open>The frame loop of \<open>Application::Run\<close>\<close>

text \<open>
  The state the loop works on: the two containers and the shape mode of the
  \<open>Application\<close> object, and the local variables of \<open>Run\<close>.
\<close>

record Application =
  asteroids :: "Asteroid list"
  projectiles :: "Projectile list"
  currentShape :: AsteroidShape
  C_WIDTH :: int
  C_HEIGHT :: int
  player :: PlayerShip
  spawnTimer :: real
  spawnInterval :: real
  currentWeapon :: WeaponType
  shotTimer :: real

text \<open>
  What one frame reads from outside: the frame time, the keyboard, and the values that
  would be drawn or loaded if the frame restarts the game or spawns an asteroid.
\<close>

record FrameInput =
  frame_dt :: real
  keyboard :: Keyboard
  restart_texture :: Texture2D
  rand_restart :: int
  draw_randomShape :: int
  spawn_draws :: SpawnDraws
  rand_spawn :: int

definition C_SPAWN_MIN :: real where "C_SPAWN_MIN = 1 / 2"
definition C_SPAWN_MAX :: real where "C_SPAWN_MAX = 3"
definition MAX_AST :: nat where "MAX_AST = 150"

subsection \<open>Restart, mode switches\<close>

definition restart_logic :: "int \<Rightarrow> FrameInput \<Rightarrow> Application \<Rightarrow> Application" where
  "restart_logic RAND_MAX inp app =
     (if \<not> IsAlive (player app) \<and> IsKeyPressed (keyboard inp) KEY_R then
        app\<lparr>player := PlayerShip_ctor (C_WIDTH app) (C_HEIGHT app) (restart_texture inp),
            asteroids := [],
            projectiles := [],
            spawnTimer := 0,
            spawnInterval := RandomFloat RAND_MAX (rand_restart inp) C_SPAWN_MIN C_SPAWN_MAX\<rparr>
      else app)"

definition shape_switch :: "Keyboard \<Rightarrow> AsteroidShape \<Rightarrow> AsteroidShape" where
  "shape_switch kb sh0 =
     (let sh1 = (if IsKeyPressed kb KEY_ONE then TRIANGLE else sh0);
          sh2 = (if IsKeyPressed kb KEY_TWO then SQUARE else sh1);
          sh3 = (if IsKeyPressed kb KEY_THREE then PENTAGON else sh2);
          sh4 = (if IsKeyPressed kb KEY_FIVE then RANDOM else sh3)
      in if IsKeyPressed kb KEY_FOUR then GIGA_SHAPE else sh4)"

definition weapon_switch :: "Keyboard \<Rightarrow> WeaponType \<Rightarrow> WeaponType" where
  "weapon_switch kb wt =
     (if IsKeyPressed kb KEY_TAB
      then WeaponType_cast ((WeaponType_value wt + 1) mod WeaponType_value COUNT)
      else wt)"

subsection \<open>Shooting\<close>

text \<open>
  The muzzle point and the heading in radians, as the body of the firing loop computes
  them from the player.
\<close>

definition muzzle :: "PlayerShip \<Rightarrow> Vector2 \<times> real" where
  "muzzle pl =
     (let p = Ship_GetPosition pl;
          rot_deg = GetAngle pl - 90;
          rot_rad = rot_deg * (pi / 180);
          p1 = p\<lparr>x := x p + cos rot_rad * PlayerShip_GetRadius pl\<rparr>;
          p2 = p1\<lparr>y := y p1 + sin rot_rad * PlayerShip_GetRadius pl\<rparr>
      in (p2, rot_rad))"

text \<open>
  The loop \<open>while (shotTimer >= interval)\<close>. Nothing in the loop bounds the number of
  rounds, so the model is a partial function: \<open>None\<close> stands for a loop that never ends.
\<close>

partial_function (option) fire_loop ::
  "PlayerShip \<Rightarrow> WeaponType \<Rightarrow> real \<Rightarrow> real \<Rightarrow> real \<Rightarrow> Projectile list
     \<Rightarrow> (real \<times> Projectile list) option" where
  "fire_loop pl wt interval projSpeed t ps =
     (if t \<ge> interval then
        fire_loop pl wt interval projSpeed (t - interval)
          (ps @ [MakeProjectile wt (fst (muzzle pl)) projSpeed (snd (muzzle pl))])
      else Some (t, ps))"

text \<open>
  The shooting block: it yields the new shot timer and the new projectile list. \<open>None\<close>
  when \<open>GetFireRate\<close> has no defined result or the firing loop does not end.

  The interval is \<open>1.f / rate\<close>. For a rate of zero that is the \<open>float\<close> infinity, which
  the reals do not have: no finite timer reaches it, so the firing loop does not run and
  the idle branch leaves the timer as it is. The model writes that case out.
\<close>

definition shooting ::
  "Keyboard \<Rightarrow> real \<Rightarrow> PlayerShip \<Rightarrow> WeaponType \<Rightarrow> real \<Rightarrow> Projectile list
     \<Rightarrow> (real \<times> Projectile list) option" where
  "shooting kb dt pl wt t ps =
     (if IsAlive pl \<and> IsKeyDown kb KEY_SPACE then
        (case GetFireRate pl wt of
           None \<Rightarrow> None
         | Some rate \<Rightarrow>
             (let t1 = t + dt;
                  projSpeed = GetSpacing pl wt * rate
              in if rate = 0 then Some (t1, ps)
                 else fire_loop pl wt (1 / rate) projSpeed t1 ps))
      else
        (case GetFireRate pl wt of
           None \<Rightarrow> None
         | Some rate \<Rightarrow>
             if rate = 0 then Some (t, ps)
             else (let maxInterval = 1 / rate
                   in Some (if t > maxInterval then fmodf t maxInterval else t, ps))))"

subsection \<open>Spawning and projectile update\<close>

definition spawn_asteroids :: "int \<Rightarrow> FrameInput \<Rightarrow> Application \<Rightarrow> Application" where
  "spawn_asteroids RAND_MAX inp app =
     (if spawnTimer app \<ge> spawnInterval app \<and> length (asteroids app) < MAX_AST then
        app\<lparr>asteroids := asteroids app @
               [MakeAsteroid RAND_MAX (C_WIDTH app) (C_HEIGHT app) (currentShape app)
                  (draw_randomShape inp) (spawn_draws inp)],
            spawnTimer := 0,
            spawnInterval := RandomFloat RAND_MAX (rand_spawn inp) C_SPAWN_MIN C_SPAWN_MAX\<rparr>
      else app)"

text \<open>\<open>std::remove_if\<close> with \<open>Projectile::Update\<close> as the predicate, then \<open>erase\<close>.\<close>

fun update_projectiles :: "Renderer \<Rightarrow> real \<Rightarrow> Projectile list \<Rightarrow> Projectile list" where
  "update_projectiles rnd dt [] = []"
| "update_projectiles rnd dt (p # ps) =
     (if snd (Projectile_Update rnd dt p) then update_projectiles rnd dt ps
      else fst (Projectile_Update rnd dt p) # update_projectiles rnd dt ps)"

subsection \<open>Collision pass A: projectiles against asteroids\<close>

text \<open>
  The inner loop for one projectile. \<open>NoHit\<close>: the scan reached the end of the asteroids
  and \<open>removed\<close> stayed false. \<open>Hit as\<close>: the scan stopped at a contact, and \<open>as\<close> is the
  asteroid list it leaves. \<open>None\<close>: the radius of the projectile has no defined value.
\<close>

datatype scan = NoHit | Hit "Asteroid list"

fun scan_asteroids :: "Projectile \<Rightarrow> Asteroid list \<Rightarrow> scan option" where
  "scan_asteroids p [] = Some NoHit"
| "scan_asteroids p (a # as) =
     (case Projectile_GetRadius p of
        None \<Rightarrow> None
      | Some rp \<Rightarrow>
          if Vector2Distance (Projectile_GetPosition p) (Asteroid_GetPosition a)
               < rp + Asteroid_GetRadius a
          then (let a' = Asteroid_TakeDamage a (Projectile_GetDamage p)
                in Some (Hit (if Asteroid_IsDead a' then as else a' # as)))
          else (case scan_asteroids p as of
                  None \<Rightarrow> None
                | Some NoHit \<Rightarrow> Some NoHit
                | Some (Hit as') \<Rightarrow> Some (Hit (a # as'))))"

text \<open>The outer loop: a projectile that hit is erased, one that did not is kept.\<close>

fun collision_pass_A ::
  "Projectile list \<Rightarrow> Asteroid list \<Rightarrow> (Projectile list \<times> Asteroid list) option" where
  "collision_pass_A [] as = Some ([], as)"
| "collision_pass_A (p # ps) as =
     (case scan_asteroids p as of
        None \<Rightarrow> None
      | Some (Hit as') \<Rightarrow> collision_pass_A ps as'
      | Some NoHit \<Rightarrow>
          (case collision_pass_A ps as of
             None \<Rightarrow> None
           | Some (ps', as') \<Rightarrow> Some (p # ps', as')))"

subsection \<open>Collision pass B: asteroids against the player\<close>

text \<open>
  The lambda \<open>remove_collision\<close>. It changes the player or the asteroid and returns
  whether the asteroid is to be removed; the model returns all three.
\<close>

definition remove_collision ::
  "Renderer \<Rightarrow> real \<Rightarrow> PlayerShip \<Rightarrow> Asteroid \<Rightarrow> PlayerShip \<times> Asteroid \<times> bool" where
  "remove_collision rnd dt pl a =
     (if IsAlive pl
         \<and> Vector2Distance (Ship_GetPosition pl) (Asteroid_GetPosition a)
             < PlayerShip_GetRadius pl + Asteroid_GetRadius a
      then (Ship_TakeDamage pl (Asteroid_GetDamage a), a, True)
      else if \<not> snd (Asteroid_Update rnd dt a)
           then (pl, fst (Asteroid_Update rnd dt a), True)
           else (pl, fst (Asteroid_Update rnd dt a), False))"

text \<open>\<open>std::remove_if\<close> with that lambda, then \<open>erase\<close>.\<close>

fun collision_pass_B ::
  "Renderer \<Rightarrow> real \<Rightarrow> PlayerShip \<Rightarrow> Asteroid list \<Rightarrow> PlayerShip \<times> Asteroid list" where
  "collision_pass_B rnd dt pl [] = (pl, [])"
| "collision_pass_B rnd dt pl (a # as) =
     (case remove_collision rnd dt pl a of
        (pl', a', rm) \<Rightarrow>
          (case collision_pass_B rnd dt pl' as of
             (pl'', as') \<Rightarrow> (pl'', if rm then as' else a' # as')))"

subsection \<open>One frame\<close>

text \<open>The two collision passes, in the order the loop body has them.\<close>

definition collisions :: "Renderer \<Rightarrow> real \<Rightarrow> Application \<Rightarrow> Application option" where
  "collisions rnd dt app =
     (case collision_pass_A (projectiles app) (asteroids app) of
        None \<Rightarrow> None
      | Some (ps, as) \<Rightarrow>
          (case collision_pass_B rnd dt (player app) as of
             (pl, as') \<Rightarrow> Some (app\<lparr>projectiles := ps, asteroids := as', player := pl\<rparr>)))"

text \<open>
  One round of the \<open>while (!WindowShouldClose())\<close> loop, without the drawing at its end.
\<close>

definition frame :: "int \<Rightarrow> Renderer \<Rightarrow> FrameInput \<Rightarrow> Application \<Rightarrow> Application option" where
  "frame RAND_MAX rnd inp app =
     (let dt = frame_dt inp;
          kb = keyboard inp;
          app1 = app\<lparr>spawnTimer := spawnTimer app + dt\<rparr>;
          app2 = app1\<lparr>player := PlayerShip_Update kb dt (player app1)\<rparr>;
          app3 = restart_logic RAND_MAX inp app2;
          app4 = app3\<lparr>currentShape := shape_switch kb (currentShape app3)\<rparr>;
          app5 = app4\<lparr>currentWeapon := weapon_switch kb (currentWeapon app4)\<rparr>
      in case shooting kb dt (player app5) (currentWeapon app5) (shotTimer app5)
                (projectiles app5) of
           None \<Rightarrow> None
         | Some (t, ps) \<Rightarrow>
             (let app6 = app5\<lparr>shotTimer := t, projectiles := ps\<rparr>;
                  app7 = spawn_asteroids RAND_MAX inp app6;
                  app8 = app7\<lparr>projectiles := update_projectiles rnd dt (projectiles app7)\<rparr>
              in collisions rnd dt app8))"

section \<open>Call sequences used to state the properties\<close>

text \<open>
  The two calls that change a player ship, \<open>Update\<close> and \<open>TakeDamage\<close>, and the effect
  of a sequence of them in order.
\<close>

datatype ship_call = CallUpdate Keyboard real | CallTakeDamage int

fun do_call :: "ship_call \<Rightarrow> PlayerShip \<Rightarrow> PlayerShip" where
  "do_call (CallUpdate kb dt) s = PlayerShip_Update kb dt s"
| "do_call (CallTakeDamage dmg) s = Ship_TakeDamage s dmg"

fun do_calls :: "ship_call list \<Rightarrow> PlayerShip \<Rightarrow> PlayerShip" where
  "do_calls [] s = s"
| "do_calls (c # cs) s = do_calls cs (do_call c s)"

text \<open>
  The shooting block run over consecutive frames with the frame times \<open>dts\<close>, the player
  and the weapon staying as they are.
\<close>

fun shooting_frames ::
  "Keyboard \<Rightarrow> PlayerShip \<Rightarrow> WeaponType \<Rightarrow> real list \<Rightarrow> real \<Rightarrow> Projectile list
     \<Rightarrow> (real \<times> Projectile list) option" where
  "shooting_frames kb pl wt [] t ps = Some (t, ps)"
| "shooting_frames kb pl wt (dt # dts) t ps =
     (case shooting kb dt pl wt t ps of
        None \<Rightarrow> None
      | Some (t', ps') \<Rightarrow> shooting_frames kb pl wt dts t' ps')"

text \<open>The five firing constants of a ship.\<close>

definition fire_config :: "PlayerShip \<Rightarrow> real \<times> real \<times> real \<times> real \<times> real" where
  "fire_config s =
     (fireRateLaser s, fireRateBullet s, fireRateMine s, spacingLaser s, spacingBullet s)"

section \<open>Example values\<close>

text \<open>Concrete inputs at which the properties below are instantiated.\<close>

definition example_texture :: Texture2D where
  "example_texture = \<lparr>width = 128, height = 128\<rparr>"

definition example_player :: PlayerShip where
  "example_player = PlayerShip_ctor 900 900 example_texture"

definition keys_none :: Keyboard where
  "keys_none = \<lparr>IsKeyDown = (\<lambda>k. False), IsKeyPressed = (\<lambda>k. False)\<rparr>"

definition keys_restart :: Keyboard where
  "keys_restart = \<lparr>IsKeyDown = (\<lambda>k. False), IsKeyPressed = (\<lambda>k. k = KEY_R)\<rparr>"

definition keys_fire :: Keyboard where
  "keys_fire = \<lparr>IsKeyDown = (\<lambda>k. k = KEY_SPACE), IsKeyPressed = (\<lambda>k. False)\<rparr>"

definition example_draws :: SpawnDraws where
  "example_draws = \<lparr>edge = 0, r_along = 0, r_ang = 0, r_rad = 0, r_speed = 0,
                     r_rotSpeed = 0, r_rotation = 0\<rparr>"

definition example_input :: "Keyboard \<Rightarrow> FrameInput" where
  "example_input kb = \<lparr>frame_dt = 1 / 60, keyboard = kb, restart_texture = example_texture,
                        rand_restart = 0, draw_randomShape = 0, spawn_draws = example_draws,
                        rand_spawn = 0\<rparr>"

definition example_app :: "PlayerShip \<Rightarrow> Application" where
  "example_app pl = \<lparr>asteroids = [], projectiles = [], currentShape = RANDOM,
                      C_WIDTH = 900, C_HEIGHT = 900, player = pl, spawnTimer = 0,
                      spawnInterval = 1, currentWeapon = LASER, shotTimer = 0\<rparr>"

definition example_renderer :: Renderer where
  "example_renderer = \<lparr>screenW = 900, screenH = 900\<rparr>"

definition place :: "real \<Rightarrow> real \<Rightarrow> Asteroid \<Rightarrow> Asteroid" where
  "place px py a = a\<lparr>Asteroid.transform := (Asteroid.transform a)\<lparr>position := \<lparr>x = px, y = py\<rparr>\<rparr>\<rparr>"

definition example_projectile :: Projectile where
  "example_projectile = MakeProjectile LASER \<lparr>x = 450, y = 450\<rparr> 720 0"

definition far_triangle :: Asteroid where
  "far_triangle = TriangleAsteroid 32767 900 900 example_draws"

definition near_square :: Asteroid where
  "near_square = place 450 450 (SquareAsteroid 32767 900 900 example_draws)"

definition near_triangle :: Asteroid where
  "near_triangle = place 450 450 (TriangleAsteroid 32767 900 900 example_draws)"

definition wounded_triangle :: Asteroid where
  "wounded_triangle = Asteroid_TakeDamage near_triangle 17"

section \<open>Runs of the frame loop\<close>

text \<open>
  The state in which \<open>Run\<close> enters the loop, for a monitor of \<open>w\<close> by \<open>h\<close>, the player
  texture \<open>tex\<close> and the value \<open>r\<close> of \<open>rand()\<close> behind the first spawn interval; and the
  loop run over a list of frame inputs.
\<close>

definition Run_start :: "int \<Rightarrow> int \<Rightarrow> int \<Rightarrow> Texture2D \<Rightarrow> int \<Rightarrow> Application" where
  "Run_start RAND_MAX w h tex r =
     \<lparr>asteroids = [], projectiles = [], currentShape = RANDOM,
      C_WIDTH = w, C_HEIGHT = h,
      player = PlayerShip_ctor w h tex,
      spawnTimer = 0,
      spawnInterval = RandomFloat RAND_MAX r C_SPAWN_MIN C_SPAWN_MAX,
      currentWeapon = LASER,
      shotTimer = 0\<rparr>"

fun run_frames ::
  "int \<Rightarrow> Renderer \<Rightarrow> FrameInput list \<Rightarrow> Application \<Rightarrow> Application option" where
  "run_frames RAND_MAX rnd [] app = Some app"
| "run_frames RAND_MAX rnd (inp # inps) app =
     (case frame RAND_MAX rnd inp app of
        None \<Rightarrow> None
      | Some app' \<Rightarrow> run_frames RAND_MAX rnd inps app')"

text \<open>
  What the loop keeps true of its state: the firing constants of the player are those of
  the constructor, neither the selected weapon nor the type of a projectile is \<open>COUNT\<close>,
  and the shot timer is not negative.
\<close>

definition typed :: "Projectile \<Rightarrow> bool" where
  "typed p = (Projectile.type p \<noteq> COUNT)"

definition well_formed :: "Application \<Rightarrow> bool" where
  "well_formed app =
     (fire_config (player app) = (18, 12, 2, 40, 20)
      \<and> currentWeapon app \<noteq> COUNT
      \<and> list_all typed (projectiles app)
      \<and> 0 \<le> shotTimer app)"

text \<open>More example values: frames of 1/18 second, and the TAB key.\<close>

definition slow_frame :: "Keyboard \<Rightarrow> FrameInput" where
  "slow_frame kb = (example_input kb)\<lparr>frame_dt := 1 / 18\<rparr>"

definition keys_tab :: Keyboard where
  "keys_tab = \<lparr>IsKeyDown = (\<lambda>k. False), IsKeyPressed = (\<lambda>k. k = KEY_TAB)\<rparr>"

definition keys_tab_fire :: Keyboard where
  "keys_tab_fire = \<lparr>IsKeyDown = (\<lambda>k. k = KEY_SPACE), IsKeyPressed = (\<lambda>k. k = KEY_TAB)\<rparr>"

section \<open>The player ship\<close>

lemma alive_move_y: "alive (move_y d s) = alive s"
  by (simp add: move_y_def)

lemma alive_move_x: "alive (move_x d s) = alive s"
  by (simp add: move_x_def)

lemma alive_turn: "alive (turn d s) = alive s"
  by (simp add: turn_def)

lemma alive_PlayerShip_Update: "alive (PlayerShip_Update kb dt s) = alive s"
  by (simp add: PlayerShip_Update_def Let_def alive_move_y alive_move_x alive_turn)

lemma dead_Ship_TakeDamage: "\<not> alive s \<Longrightarrow> Ship_TakeDamage s dmg = s"
  by (simp add: Ship_TakeDamage_def)

lemma dead_do_call: "\<not> alive s \<Longrightarrow> \<not> alive (do_call c s)"
  by (cases c) (simp_all add: alive_PlayerShip_Update dead_Ship_TakeDamage)

lemma dead_do_calls: "\<not> alive s \<Longrightarrow> \<not> alive (do_calls cs s)"
  by (induction cs arbitrary: s) (simp_all add: dead_do_call)

lemma alive_PlayerShip_ctor: "alive (PlayerShip_ctor w h tex)"
  by (simp add: PlayerShip_ctor_def Ship_ctor_def Ship.extend_def)

text \<open>
  Claim C4. \<open>TakeDamage\<close> on the player ship does nothing when the ship is not alive;
  otherwise it subtracts the damage from the hit-points and clears the alive flag exactly
  when the hit-points are then at most zero. From a ship that is not alive, no sequence of
  \<open>Update\<close> and \<open>TakeDamage\<close> calls leads to a ship that is alive. The restart logic, taken
  when the player is dead and R is pressed, replaces the player by a newly constructed
  ship, which is alive.
\<close>

theorem C4_death_is_one_way:
  "Ship_TakeDamage s dmg =
     (if alive s
      then s\<lparr>Ship.hp := Ship.hp s - dmg, alive := \<not> (Ship.hp s - dmg \<le> 0)\<rparr>
      else s)
   \<and> (\<not> alive s \<longrightarrow> \<not> alive (do_calls cs s))
   \<and> (\<not> IsAlive (player app) \<and> IsKeyPressed (keyboard inp) KEY_R \<longrightarrow>
        player (restart_logic rm inp app)
          = PlayerShip_ctor (C_WIDTH app) (C_HEIGHT app) (restart_texture inp)
        \<and> alive (player (restart_logic rm inp app)))"
proof (intro conjI impI)
  show "Ship_TakeDamage s dmg =
     (if alive s
      then s\<lparr>Ship.hp := Ship.hp s - dmg, alive := \<not> (Ship.hp s - dmg \<le> 0)\<rparr>
      else s)"
    by (cases "Ship.hp s - dmg \<le> 0") (simp_all add: Ship_TakeDamage_def Let_def)
next
  assume "\<not> alive s"
  then show "\<not> alive (do_calls cs s)" by (rule dead_do_calls)
next
  assume r: "\<not> IsAlive (player app) \<and> IsKeyPressed (keyboard inp) KEY_R"
  then show p: "player (restart_logic rm inp app)
      = PlayerShip_ctor (C_WIDTH app) (C_HEIGHT app) (restart_texture inp)"
    by (simp add: restart_logic_def)
  show "alive (player (restart_logic rm inp app))"
    by (simp only: p alive_PlayerShip_ctor)
qed

theorem C4_death_is_one_way_witness:
  "\<not> alive (Ship_TakeDamage example_player 100)
   \<and> \<not> alive (do_calls [CallTakeDamage (- 500), CallUpdate keys_none (1 / 60)]
                 (Ship_TakeDamage example_player 100))
   \<and> \<not> IsAlive (player (example_app (Ship_TakeDamage example_player 100)))
   \<and> IsKeyPressed (keyboard (example_input keys_restart)) KEY_R
   \<and> alive (player (restart_logic 32767 (example_input keys_restart)
                      (example_app (Ship_TakeDamage example_player 100))))"
proof -
  have d: "\<not> alive (Ship_TakeDamage example_player 100)"
    by (simp add: example_player_def PlayerShip_ctor_def Ship_ctor_def Ship.extend_def
        Ship_TakeDamage_def)
  have r: "\<not> IsAlive (player (example_app (Ship_TakeDamage example_player 100)))
           \<and> IsKeyPressed (keyboard (example_input keys_restart)) KEY_R"
    using d by (simp add: example_app_def example_input_def keys_restart_def IsAlive_def)
  show ?thesis
    using d r
      C4_death_is_one_way [of "Ship_TakeDamage example_player 100" 0
        "[CallTakeDamage (- 500), CallUpdate keys_none (1 / 60)]"
        "example_app (Ship_TakeDamage example_player 100)"
        "example_input keys_restart" 32767]
    by blast
qed

section \<open>Contact damage\<close>

text \<open>
  Claim C10. The contact damage of an asteroid is its base damage times the value of its
  size: 5 * 1 for the triangle (SMALL), 10 * 2 for the square (MEDIUM), 15 * 4 for the
  pentagon (LARGE) and 10 * 10 for the giga asteroid, whose base damage is that of the
  square. A newly constructed player has 100 hit-points, and taking the damage of one
  giga asteroid leaves it with exactly 0 hit-points and not alive.
\<close>

theorem C10_contact_damage:
  "Asteroid_GetDamage (TriangleAsteroid rm w h d) = 5 * 1
   \<and> Asteroid_GetDamage (SquareAsteroid rm w h d) = 10 * 2
   \<and> Asteroid_GetDamage (PentagonAsteroid rm w h d) = 15 * 4
   \<and> Asteroid_GetDamage (GigaAsteroid rm w h d) = 10 * 10
   \<and> Asteroid.baseDamage (GigaAsteroid rm w h d)
       = Asteroid.baseDamage (SquareAsteroid rm w h d)
   \<and> Ship.hp (PlayerShip_ctor pw ph tex) = 100
   \<and> Ship.hp (Ship_TakeDamage (PlayerShip_ctor pw ph tex)
                (Asteroid_GetDamage (GigaAsteroid rm w h d))) = 0
   \<and> \<not> alive (Ship_TakeDamage (PlayerShip_ctor pw ph tex)
                (Asteroid_GetDamage (GigaAsteroid rm w h d)))"
  by (simp add: TriangleAsteroid_def SquareAsteroid_def PentagonAsteroid_def GigaAsteroid_def
      Asteroid_GetDamage_def Let_def PlayerShip_ctor_def Ship_ctor_def Ship.extend_def
      Ship_TakeDamage_def)

section \<open>Integration and culling\<close>

text \<open>
  Claim C5. \<open>Asteroid::Update(dt)\<close> adds velocity times \<open>dt\<close> to the position and rotation
  speed times \<open>dt\<close> to the rotation, and returns \<open>false\<close> (remove) exactly when the new
  position is outside the screen rectangle widened by the asteroid's radius on each side.
  \<open>Projectile::Update(dt)\<close> adds velocity times \<open>dt\<close> to the position, takes \<open>dt\<close> off
  the lifetime, and returns \<open>true\<close> (remove) exactly when the remaining lifetime is at most
  zero or the new position is outside the screen rectangle itself, with no margin.
\<close>

theorem C5_culling_rules:
  "fst (Asteroid_Update rnd dt a) =
      a\<lparr>Asteroid.transform :=
          \<lparr>position = \<lparr>x = x (Asteroid_GetPosition a) + x (velocity (Asteroid.physics a)) * dt,
                        y = y (Asteroid_GetPosition a) + y (velocity (Asteroid.physics a)) * dt\<rparr>,
           rotation = rotation (Asteroid.transform a) + rotationSpeed (Asteroid.physics a) * dt\<rparr>\<rparr>
   \<and> (snd (Asteroid_Update rnd dt a) = False) =
       (x (Asteroid_GetPosition (fst (Asteroid_Update rnd dt a))) < - Asteroid_GetRadius a
        \<or> x (Asteroid_GetPosition (fst (Asteroid_Update rnd dt a)))
             > real_of_int (Width rnd) + Asteroid_GetRadius a
        \<or> y (Asteroid_GetPosition (fst (Asteroid_Update rnd dt a))) < - Asteroid_GetRadius a
        \<or> y (Asteroid_GetPosition (fst (Asteroid_Update rnd dt a)))
             > real_of_int (Height rnd) + Asteroid_GetRadius a)
   \<and> fst (Projectile_Update rnd dt p) =
      p\<lparr>Projectile.transform :=
          \<lparr>position = \<lparr>x = x (Projectile_GetPosition p) + x (velocity (Projectile.physics p)) * dt,
                        y = y (Projectile_GetPosition p) + y (velocity (Projectile.physics p)) * dt\<rparr>,
           rotation = rotation (Projectile.transform p)\<rparr>,
         Projectile.life := Projectile.life p - dt\<rparr>
   \<and> snd (Projectile_Update rnd dt p) =
       (Projectile.life p - dt \<le> 0
        \<or> x (Projectile_GetPosition (fst (Projectile_Update rnd dt p))) < 0
        \<or> x (Projectile_GetPosition (fst (Projectile_Update rnd dt p))) > real_of_int (Width rnd)
        \<or> y (Projectile_GetPosition (fst (Projectile_Update rnd dt p))) < 0
        \<or> y (Projectile_GetPosition (fst (Projectile_Update rnd dt p))) > real_of_int (Height rnd))"
proof (intro conjI)
  show "fst (Asteroid_Update rnd dt a) =
      a\<lparr>Asteroid.transform :=
          \<lparr>position = \<lparr>x = x (Asteroid_GetPosition a) + x (velocity (Asteroid.physics a)) * dt,
                        y = y (Asteroid_GetPosition a) + y (velocity (Asteroid.physics a)) * dt\<rparr>,
           rotation = rotation (Asteroid.transform a) + rotationSpeed (Asteroid.physics a) * dt\<rparr>\<rparr>"
    by (simp add: Asteroid_Update_def Let_def Asteroid_GetPosition_def Vector2Add_def
        Vector2Scale_def)
next
  show "(snd (Asteroid_Update rnd dt a) = False) =
       (x (Asteroid_GetPosition (fst (Asteroid_Update rnd dt a))) < - Asteroid_GetRadius a
        \<or> x (Asteroid_GetPosition (fst (Asteroid_Update rnd dt a)))
             > real_of_int (Width rnd) + Asteroid_GetRadius a
        \<or> y (Asteroid_GetPosition (fst (Asteroid_Update rnd dt a))) < - Asteroid_GetRadius a
        \<or> y (Asteroid_GetPosition (fst (Asteroid_Update rnd dt a)))
             > real_of_int (Height rnd) + Asteroid_GetRadius a)"
    by (simp add: Asteroid_Update_def Let_def Asteroid_GetPosition_def Asteroid_GetRadius_def)
next
  show "fst (Projectile_Update rnd dt p) =
      p\<lparr>Projectile.transform :=
          \<lparr>position = \<lparr>x = x (Projectile_GetPosition p) + x (velocity (Projectile.physics p)) * dt,
                        y = y (Projectile_GetPosition p) + y (velocity (Projectile.physics p)) * dt\<rparr>,
           rotation = rotation (Projectile.transform p)\<rparr>,
         Projectile.life := Projectile.life p - dt\<rparr>"
    by (simp add: Projectile_Update_def Let_def Projectile_GetPosition_def Vector2Add_def
        Vector2Scale_def)
next
  show "snd (Projectile_Update rnd dt p) =
       (Projectile.life p - dt \<le> 0
        \<or> x (Projectile_GetPosition (fst (Projectile_Update rnd dt p))) < 0
        \<or> x (Projectile_GetPosition (fst (Projectile_Update rnd dt p))) > real_of_int (Width rnd)
        \<or> y (Projectile_GetPosition (fst (Projectile_Update rnd dt p))) < 0
        \<or> y (Projectile_GetPosition (fst (Projectile_Update rnd dt p))) > real_of_int (Height rnd))"
    by (auto simp add: Projectile_Update_def Let_def Projectile_GetPosition_def)
qed

section \<open>Spawn placement\<close>

text \<open>
  \<open>init\<close> places the asteroid outside one screen edge, at the distance of the radius the
  object has while \<open>init\<close> runs.
\<close>

lemma spawn_offset_ignores_size:
  "Asteroid_GetPosition (init rm w h d a)
     = (if edge d = 0 then \<lparr>x = RandomFloat rm (r_along d) 0 (real_of_int w), y = - Asteroid_GetRadius a\<rparr>
        else if edge d = 1 then \<lparr>x = real_of_int w + Asteroid_GetRadius a, y = RandomFloat rm (r_along d) 0 (real_of_int h)\<rparr>
        else if edge d = 2 then \<lparr>x = RandomFloat rm (r_along d) 0 (real_of_int w), y = real_of_int h + Asteroid_GetRadius a\<rparr>
        else \<lparr>x = - Asteroid_GetRadius a, y = RandomFloat rm (r_along d) 0 (real_of_int h)\<rparr>)"
  by (simp add: init_def Let_def Asteroid_GetPosition_def)

text \<open>
  \<open>init\<close> runs inside the base-class constructor, before the subclass constructor
  assigns \<open>render.size\<close>, so the radius it reads is that of the default size \<open>SMALL\<close>, 16,
  for every class of asteroid.
\<close>

lemma spawn_offset_is_16:
  "Asteroid_GetPosition (MakeAsteroid rm w h shape rs d)
     = (if edge d = 0 then \<lparr>x = RandomFloat rm (r_along d) 0 (real_of_int w), y = - 16\<rparr>
        else if edge d = 1 then \<lparr>x = real_of_int w + 16, y = RandomFloat rm (r_along d) 0 (real_of_int h)\<rparr>
        else if edge d = 2 then \<lparr>x = RandomFloat rm (r_along d) 0 (real_of_int w), y = real_of_int h + 16\<rparr>
        else \<lparr>x = - 16, y = RandomFloat rm (r_along d) 0 (real_of_int h)\<rparr>)"
  by (cases shape)
    (simp_all add: MakeAsteroid_def TriangleAsteroid_def SquareAsteroid_def PentagonAsteroid_def
      GigaAsteroid_def Asteroid_ctor_def Let_def Asteroid_GetPosition_def Asteroid_GetRadius_def
      init_def)

lemma spawn_radius:
  "Asteroid_GetRadius (TriangleAsteroid rm w h d) = 16
   \<and> Asteroid_GetRadius (SquareAsteroid rm w h d) = 32
   \<and> Asteroid_GetRadius (PentagonAsteroid rm w h d) = 64
   \<and> Asteroid_GetRadius (GigaAsteroid rm w h d) = 160"
  by (simp add: TriangleAsteroid_def SquareAsteroid_def PentagonAsteroid_def GigaAsteroid_def
      Let_def Asteroid_GetRadius_def)

text \<open>
  Claim C9, at a square asteroid on a 900 by 900 screen with the top edge drawn. The
  claim asks for a distance to the edge equal to the asteroid's own radius, which is 32;
  the asteroid is placed 16 above the edge.
\<close>

theorem C9_square_spawns_16_outside:
  "Asteroid_GetPosition (MakeAsteroid 32767 900 900 SQUARE 0 example_draws) = \<lparr>x = 0, y = - 16\<rparr>
   \<and> Asteroid_GetRadius (MakeAsteroid 32767 900 900 SQUARE 0 example_draws) = 32"
  by (simp add: MakeAsteroid_def SquareAsteroid_def Asteroid_ctor_def Let_def
      spawn_offset_ignores_size Asteroid_GetPosition_def Asteroid_GetRadius_def init_def
      example_draws_def RandomFloat_def)

section \<open>Collision pass A\<close>

text \<open>
  The contact test compares a square root with the sum of the radii; it is the same as
  comparing the squares.
\<close>

lemma Vector2Distance_less_iff:
  "Vector2Distance u v < r \<longleftrightarrow>
     0 < r \<and> (x u - x v) * (x u - x v) + (y u - y v) * (y u - y v) < r * r"
proof -
  let ?s = "(x u - x v) * (x u - x v) + (y u - y v) * (y u - y v)"
  have s0: "0 \<le> sqrt ?s" by simp
  show ?thesis
  proof (cases "0 < r")
    case True
    then have "sqrt (r * r) = r" by simp
    moreover have "sqrt ?s < sqrt (r * r) \<longleftrightarrow> ?s < r * r"
      by (rule real_sqrt_less_iff)
    ultimately have "sqrt ?s < r \<longleftrightarrow> ?s < r * r" by simp
    then show ?thesis using True by (simp only: Vector2Distance_def simp_thms)
  next
    case False
    then have "\<not> sqrt ?s < r" using s0 by linarith
    then show ?thesis using False by (simp only: Vector2Distance_def simp_thms)
  qed
qed

text \<open>
  The scan of one projectile stops at the first asteroid in contact: the asteroids before
  it and after it are left as they are.
\<close>

lemma scan_first_contact:
  assumes rp: "Projectile_GetRadius p = Some rp"
    and pre: "\<forall>b \<in> set pre. \<not> Vector2Distance (Projectile_GetPosition p) (Asteroid_GetPosition b)
                                  < rp + Asteroid_GetRadius b"
    and hit: "Vector2Distance (Projectile_GetPosition p) (Asteroid_GetPosition a)
                < rp + Asteroid_GetRadius a"
  shows "scan_asteroids p (pre @ a # post) =
           Some (Hit (pre @ (if Asteroid.hp a - Projectile_GetDamage p \<le> 0 then []
                             else [a\<lparr>Asteroid.hp := Asteroid.hp a - Projectile_GetDamage p\<rparr>])
                          @ post))"
  using pre
proof (induction pre)
  case Nil
  show ?case using rp hit
    by (simp add: Asteroid_TakeDamage_def Asteroid_IsDead_def Let_def)
next
  case (Cons b bs)
  then show ?case using rp by simp
qed

lemma scan_no_contact:
  assumes rp: "Projectile_GetRadius p = Some rp"
    and none: "\<forall>b \<in> set as. \<not> Vector2Distance (Projectile_GetPosition p) (Asteroid_GetPosition b)
                                  < rp + Asteroid_GetRadius b"
  shows "scan_asteroids p as = Some NoHit"
  using none by (induction as) (simp_all add: rp)

text \<open>
  Claim C1. Let a projectile with damage D meet the asteroid list \<open>pre @ a # post\<close>,
  where no asteroid of \<open>pre\<close> is nearer to it than the sum of the two radii and \<open>a\<close>, with
  hit-points H, is. Then the scan takes D off the hit-points of \<open>a\<close>: \<open>a\<close> stays in the
  list with hit-points H - D when H - D > 0 and is removed when H - D \<le> 0. The asteroids
  of \<open>post\<close> are not scanned for this projectile, whether or not they are in contact, and
  the projectile is erased in both cases: the pass goes on with the remaining projectiles
  only.
\<close>

theorem C1_projectile_hits_first_asteroid:
  assumes "Projectile_GetRadius p = Some rp"
    and "\<forall>b \<in> set pre. \<not> Vector2Distance (Projectile_GetPosition p) (Asteroid_GetPosition b)
                             < rp + Asteroid_GetRadius b"
    and "Vector2Distance (Projectile_GetPosition p) (Asteroid_GetPosition a)
           < rp + Asteroid_GetRadius a"
  shows "scan_asteroids p (pre @ a # post) =
           Some (Hit (pre @ (if Asteroid.hp a - Projectile_GetDamage p \<le> 0 then []
                             else [a\<lparr>Asteroid.hp := Asteroid.hp a - Projectile_GetDamage p\<rparr>])
                          @ post))
       \<and> collision_pass_A (p # ps) (pre @ a # post) =
           collision_pass_A ps
             (pre @ (if Asteroid.hp a - Projectile_GetDamage p \<le> 0 then []
                     else [a\<lparr>Asteroid.hp := Asteroid.hp a - Projectile_GetDamage p\<rparr>])
                  @ post)"
proof -
  have s: "scan_asteroids p (pre @ a # post) =
           Some (Hit (pre @ (if Asteroid.hp a - Projectile_GetDamage p \<le> 0 then []
                             else [a\<lparr>Asteroid.hp := Asteroid.hp a - Projectile_GetDamage p\<rparr>])
                          @ post))"
    using assms by (rule scan_first_contact)
  have "collision_pass_A (p # ps) (pre @ a # post) =
           collision_pass_A ps
             (pre @ (if Asteroid.hp a - Projectile_GetDamage p \<le> 0 then []
                     else [a\<lparr>Asteroid.hp := Asteroid.hp a - Projectile_GetDamage p\<rparr>])
                  @ post)"
    by (simp only: collision_pass_A.simps s option.case scan.case)
  with s show ?thesis by (rule conjI)
qed

lemma example_projectile_facts:
  "Projectile_GetRadius example_projectile = Some 2"
  "Projectile_GetDamage example_projectile = 17"
  "Projectile_GetPosition example_projectile = \<lparr>x = 450, y = 450\<rparr>"
  by (simp_all add: example_projectile_def MakeProjectile_def Projectile_ctor_def
      Projectile_GetRadius_def Projectile_GetDamage_def Projectile_GetPosition_def)

lemma far_triangle_facts:
  "Asteroid_GetPosition far_triangle = \<lparr>x = 0, y = - 16\<rparr>"
  "Asteroid_GetRadius far_triangle = 16"
  by (simp_all add: far_triangle_def TriangleAsteroid_def Asteroid_ctor_def init_def Let_def
      example_draws_def RandomFloat_def Asteroid_GetPosition_def Asteroid_GetRadius_def)

lemma near_square_facts:
  "Asteroid_GetPosition near_square = \<lparr>x = 450, y = 450\<rparr>"
  "Asteroid_GetRadius near_square = 32"
  "Asteroid.hp near_square = 100"
  by (simp_all add: near_square_def place_def SquareAsteroid_def Asteroid_ctor_def init_def
      Let_def Asteroid_GetPosition_def Asteroid_GetRadius_def Asteroid_GetMaxHP_def)

lemma near_triangle_facts:
  "Asteroid_GetPosition near_triangle = \<lparr>x = 450, y = 450\<rparr>"
  "Asteroid_GetRadius near_triangle = 16"
  "Asteroid.hp near_triangle = 25"
  "Asteroid_GetDamage near_triangle = 5"
  by (simp_all add: near_triangle_def place_def TriangleAsteroid_def Asteroid_ctor_def init_def
      Let_def Asteroid_GetPosition_def Asteroid_GetRadius_def Asteroid_GetMaxHP_def
      Asteroid_GetDamage_def)

theorem C1_projectile_hits_first_asteroid_witness:
  "Projectile_GetRadius example_projectile = Some 2
   \<and> \<not> Vector2Distance (Projectile_GetPosition example_projectile)
          (Asteroid_GetPosition far_triangle) < 2 + Asteroid_GetRadius far_triangle
   \<and> Vector2Distance (Projectile_GetPosition example_projectile) (Asteroid_GetPosition near_square)
       < 2 + Asteroid_GetRadius near_square
   \<and> collision_pass_A [example_projectile] ([far_triangle] @ near_square # [near_triangle])
       = Some ([], [far_triangle, near_square\<lparr>Asteroid.hp := 83\<rparr>, near_triangle])"
proof -
  have h1: "Projectile_GetRadius example_projectile = Some 2"
    by (simp add: example_projectile_facts)
  have h2: "\<forall>b \<in> set [far_triangle].
         \<not> Vector2Distance (Projectile_GetPosition example_projectile) (Asteroid_GetPosition b)
             < 2 + Asteroid_GetRadius b"
    by (simp add: Vector2Distance_less_iff example_projectile_facts far_triangle_facts)
  have h3: "Vector2Distance (Projectile_GetPosition example_projectile)
              (Asteroid_GetPosition near_square) < 2 + Asteroid_GetRadius near_square"
    by (simp add: Vector2Distance_less_iff example_projectile_facts near_square_facts)
  have h2': "\<not> Vector2Distance (Projectile_GetPosition example_projectile)
          (Asteroid_GetPosition far_triangle) < 2 + Asteroid_GetRadius far_triangle"
    using h2 by simp
  show ?thesis
    using h1 h2' h3
      C1_projectile_hits_first_asteroid [OF h1 h2 h3, of "[near_triangle]" "[]"]
    by (simp add: example_projectile_facts near_square_facts)
qed

section \<open>Collision pass B\<close>

lemma collision_pass_B_append:
  "collision_pass_B rnd dt pl (xs @ ys) =
     (case collision_pass_B rnd dt pl xs of
        (pl1, xs') \<Rightarrow>
          (case collision_pass_B rnd dt pl1 ys of
             (pl2, ys') \<Rightarrow> (pl2, xs' @ ys')))"
  by (induction xs arbitrary: pl) (simp_all split: prod.splits)

lemma remove_collision_hp:
  "remove_collision rnd dt pl (a\<lparr>Asteroid.hp := h\<rparr>) =
     (case remove_collision rnd dt pl a of
        (pl', a', rm) \<Rightarrow> (pl', a'\<lparr>Asteroid.hp := h\<rparr>, rm))"
  by (simp add: remove_collision_def Asteroid_Update_def Let_def Asteroid_GetPosition_def
      Asteroid_GetRadius_def Asteroid_GetDamage_def)

text \<open>
  Claim C2. Pass B treats each asteroid \<open>a\<close> of the list with the player as the asteroids
  before \<open>a\<close> have left it. If that player is alive and \<open>a\<close> is nearer to it than the sum
  of the two radii, the player takes the damage of \<open>a\<close> and \<open>a\<close> is removed. Otherwise
  \<open>a\<close> is integrated, and it is removed only if \<open>Update\<close> reports it out of bounds. In
  neither case do the hit-points of \<open>a\<close> matter or change: with any other hit-points
  \<open>h\<close> the lambda decides the same, leaves the same player, and leaves \<open>h\<close> in place.
\<close>

theorem C2_asteroid_against_player:
  "collision_pass_B rnd dt pl (pre @ a # post) =
     (case collision_pass_B rnd dt pl pre of
        (pl1, pre') \<Rightarrow>
          if IsAlive pl1
             \<and> Vector2Distance (Ship_GetPosition pl1) (Asteroid_GetPosition a)
                 < PlayerShip_GetRadius pl1 + Asteroid_GetRadius a
          then (case collision_pass_B rnd dt (Ship_TakeDamage pl1 (Asteroid_GetDamage a)) post of
                  (pl2, post') \<Rightarrow> (pl2, pre' @ post'))
          else (case collision_pass_B rnd dt pl1 post of
                  (pl2, post') \<Rightarrow>
                    (pl2, pre' @ (if snd (Asteroid_Update rnd dt a)
                                  then [fst (Asteroid_Update rnd dt a)] else []) @ post')))
   \<and> remove_collision rnd dt pl (a\<lparr>Asteroid.hp := h\<rparr>) =
       (case remove_collision rnd dt pl a of
          (pl', a', rm) \<Rightarrow> (pl', a'\<lparr>Asteroid.hp := h\<rparr>, rm))"
proof (rule conjI)
  show "collision_pass_B rnd dt pl (pre @ a # post) =
     (case collision_pass_B rnd dt pl pre of
        (pl1, pre') \<Rightarrow>
          if IsAlive pl1
             \<and> Vector2Distance (Ship_GetPosition pl1) (Asteroid_GetPosition a)
                 < PlayerShip_GetRadius pl1 + Asteroid_GetRadius a
          then (case collision_pass_B rnd dt (Ship_TakeDamage pl1 (Asteroid_GetDamage a)) post of
                  (pl2, post') \<Rightarrow> (pl2, pre' @ post'))
          else (case collision_pass_B rnd dt pl1 post of
                  (pl2, post') \<Rightarrow>
                    (pl2, pre' @ (if snd (Asteroid_Update rnd dt a)
                                  then [fst (Asteroid_Update rnd dt a)] else []) @ post')))"
    by (auto simp add: collision_pass_B_append remove_collision_def split: prod.splits)
next
  show "remove_collision rnd dt pl (a\<lparr>Asteroid.hp := h\<rparr>) =
       (case remove_collision rnd dt pl a of
          (pl', a', rm) \<Rightarrow> (pl', a'\<lparr>Asteroid.hp := h\<rparr>, rm))"
    by (rule remove_collision_hp)
qed

lemma example_player_facts:
  "IsAlive example_player"
  "Ship_GetPosition example_player = \<lparr>x = 450, y = 450\<rparr>"
  "PlayerShip_GetRadius example_player = 16"
  "Ship.hp example_player = 100"
  by (simp_all add: example_player_def PlayerShip_ctor_def Ship_ctor_def Ship.extend_def
      PlayerShip.fields_def example_texture_def IsAlive_def Ship_GetPosition_def
      PlayerShip_GetRadius_def)

theorem C2_asteroid_against_player_witness:
  "IsAlive example_player
   \<and> Vector2Distance (Ship_GetPosition example_player) (Asteroid_GetPosition near_triangle)
       < PlayerShip_GetRadius example_player + Asteroid_GetRadius near_triangle
   \<and> collision_pass_B example_renderer (1 / 60) example_player [near_triangle]
       = (Ship_TakeDamage example_player 5, [])"
proof -
  have c: "Vector2Distance (Ship_GetPosition example_player) (Asteroid_GetPosition near_triangle)
       < PlayerShip_GetRadius example_player + Asteroid_GetRadius near_triangle"
    by (simp add: Vector2Distance_less_iff example_player_facts near_triangle_facts)
  show ?thesis
    using c C2_asteroid_against_player
      [of example_renderer "1 / 60" example_player "[]" near_triangle "[]" 0]
    by (simp add: example_player_facts near_triangle_facts)
qed

section \<open>The order of the two passes\<close>

lemma collision_pass_A_append:
  "collision_pass_A (xs @ ys) as =
     (case collision_pass_A xs as of
        None \<Rightarrow> None
      | Some (xs', as1) \<Rightarrow>
          (case collision_pass_A ys as1 of
             None \<Rightarrow> None
           | Some (ys', as2) \<Rightarrow> Some (xs' @ ys', as2)))"
  by (induction xs arbitrary: as) (auto split: option.splits scan.splits prod.splits)

text \<open>
  Claim C3. In the collision part of a frame, pass A is completed before pass B starts.
  Suppose pass A, having dealt with the projectiles \<open>ps1\<close>, reaches projectile \<open>p\<close> with
  the asteroid list \<open>pre @ a # post\<close>, and \<open>p\<close> kills \<open>a\<close>: \<open>a\<close> is the first asteroid in
  contact with \<open>p\<close> and its hit-points do not exceed the damage of \<open>p\<close>. Then the rest of
  the frame is computed from \<open>pre @ post\<close>: pass A goes on with it, and pass B, which
  alone damages the player, runs on what pass A leaves of it. The asteroid \<open>a\<close> takes no
  part in pass B, also when it touches the player.
\<close>

theorem C3_pass_A_before_pass_B:
  assumes "projectiles app = ps1 @ p # ps2"
    and "collision_pass_A ps1 (asteroids app) = Some (ps1', pre @ a # post)"
    and "Projectile_GetRadius p = Some rp"
    and "\<forall>b \<in> set pre. \<not> Vector2Distance (Projectile_GetPosition p) (Asteroid_GetPosition b)
                             < rp + Asteroid_GetRadius b"
    and "Vector2Distance (Projectile_GetPosition p) (Asteroid_GetPosition a)
           < rp + Asteroid_GetRadius a"
    and "Asteroid.hp a - Projectile_GetDamage p \<le> 0"
  shows "collisions rnd dt app =
           (case collision_pass_A ps2 (pre @ post) of
              None \<Rightarrow> None
            | Some (ps2', as) \<Rightarrow>
                (case collision_pass_B rnd dt (player app) as of
                   (pl, as') \<Rightarrow>
                     Some (app\<lparr>projectiles := ps1' @ ps2', asteroids := as', player := pl\<rparr>)))"
proof -
  have s: "scan_asteroids p (pre @ a # post) = Some (Hit (pre @ post))"
    using scan_first_contact [OF assms(3) assms(4) assms(5), of post] assms(6) by simp
  have "collision_pass_A (p # ps2) (pre @ a # post) = collision_pass_A ps2 (pre @ post)"
    by (simp only: collision_pass_A.simps s option.case scan.case)
  then have "collision_pass_A (projectiles app) (asteroids app) =
       (case collision_pass_A ps2 (pre @ post) of
          None \<Rightarrow> None
        | Some (ps2', as) \<Rightarrow> Some (ps1' @ ps2', as))"
    by (simp only: assms(1) assms(2) collision_pass_A_append option.case prod.case)
  then show ?thesis
    by (simp add: collisions_def split: option.splits prod.splits)
qed

theorem C3_pass_A_before_pass_B_witness:
  "projectiles ((example_app example_player)
       \<lparr>projectiles := [example_projectile], asteroids := [wounded_triangle]\<rparr>)
     = [] @ example_projectile # []
   \<and> collision_pass_A [] (asteroids ((example_app example_player)
       \<lparr>projectiles := [example_projectile], asteroids := [wounded_triangle]\<rparr>))
     = Some ([], [] @ wounded_triangle # [])
   \<and> Projectile_GetRadius example_projectile = Some 2
   \<and> Vector2Distance (Projectile_GetPosition example_projectile)
        (Asteroid_GetPosition wounded_triangle) < 2 + Asteroid_GetRadius wounded_triangle
   \<and> Asteroid.hp wounded_triangle - Projectile_GetDamage example_projectile \<le> 0
   \<and> Vector2Distance (Ship_GetPosition example_player) (Asteroid_GetPosition wounded_triangle)
       < PlayerShip_GetRadius example_player + Asteroid_GetRadius wounded_triangle
   \<and> collisions example_renderer (1 / 60)
        ((example_app example_player)
           \<lparr>projectiles := [example_projectile], asteroids := [wounded_triangle]\<rparr>)
       = Some (example_app example_player)"
proof -
  let ?app = "(example_app example_player)
       \<lparr>projectiles := [example_projectile], asteroids := [wounded_triangle]\<rparr>"
  have w: "Asteroid_GetPosition wounded_triangle = \<lparr>x = 450, y = 450\<rparr>"
    "Asteroid_GetRadius wounded_triangle = 16" "Asteroid.hp wounded_triangle = 8"
    using near_triangle_facts
    by (simp_all add: wounded_triangle_def Asteroid_TakeDamage_def Asteroid_GetPosition_def
        Asteroid_GetRadius_def)
  have h1: "projectiles ?app = [] @ example_projectile # []" by simp
  have h2: "collision_pass_A [] (asteroids ?app) = Some ([], [] @ wounded_triangle # [])"
    by simp
  have h3: "Projectile_GetRadius example_projectile = Some 2"
    by (simp add: example_projectile_facts)
  have h4: "\<forall>b \<in> set []. \<not> Vector2Distance (Projectile_GetPosition example_projectile)
                           (Asteroid_GetPosition b) < 2 + Asteroid_GetRadius b"
    by simp
  have h5: "Vector2Distance (Projectile_GetPosition example_projectile)
        (Asteroid_GetPosition wounded_triangle) < 2 + Asteroid_GetRadius wounded_triangle"
    by (simp add: Vector2Distance_less_iff example_projectile_facts w)
  have h6: "Asteroid.hp wounded_triangle - Projectile_GetDamage example_projectile \<le> 0"
    by (simp add: example_projectile_facts w)
  have h7: "Vector2Distance (Ship_GetPosition example_player)
       (Asteroid_GetPosition wounded_triangle)
       < PlayerShip_GetRadius example_player + Asteroid_GetRadius wounded_triangle"
    by (simp add: Vector2Distance_less_iff example_player_facts w)
  have "collisions example_renderer (1 / 60) ?app = Some (example_app example_player)"
    using C3_pass_A_before_pass_B [OF h1 h2 h3 h4 h5 h6, of example_renderer "1 / 60"]
    by (simp add: example_app_def)
  with h1 h2 h3 h5 h6 h7 show ?thesis by blast
qed

section \<open>The shot timer when not firing\<close>

text \<open>For a timer above a positive interval, \<open>fmodf\<close> lands in the half-open range.\<close>

lemma fmodf_range:
  assumes m: "0 < m" and t: "m < t"
  shows "0 \<le> fmodf t m \<and> fmodf t m < m"
proof -
  have q: "0 \<le> t / m" using m t by simp
  then have tr: "truncf (t / m) = \<lfloor>t / m\<rfloor>" by (simp add: truncf_def)
  have lo: "real_of_int \<lfloor>t / m\<rfloor> \<le> t / m" by (rule of_int_floor_le)
  have hi: "t / m < real_of_int \<lfloor>t / m\<rfloor> + 1" by linarith
  have e: "m * (t / m) = t" using m by simp
  have "m * real_of_int \<lfloor>t / m\<rfloor> \<le> m * (t / m)"
    using lo m by (intro mult_left_mono) simp_all
  then have "m * real_of_int \<lfloor>t / m\<rfloor> \<le> t" by (simp only: e)
  moreover have "m * (t / m) < m * (real_of_int \<lfloor>t / m\<rfloor> + 1)"
    using hi m by (intro mult_strict_left_mono) simp_all
  then have "t < m * (real_of_int \<lfloor>t / m\<rfloor> + 1)" by (simp only: e)
  ultimately show ?thesis
    by (simp add: fmodf_def tr algebra_simps)
qed

lemma fmodf_floor:
  "0 < m \<Longrightarrow> 0 \<le> t \<Longrightarrow> fmodf t m = t - m * real_of_int \<lfloor>t / m\<rfloor>"
  by (simp add: fmodf_def truncf_def)

text \<open>
  Claim C6, as the code has it. The idle branch of the shooting block is taken when the
  player is dead or the fire key is not down. It reduces the timer by \<open>fmodf\<close>, and only
  under the guard \<open>shotTimer > maxInterval\<close>. So from a timer \<open>t \<ge> 0\<close>: a timer below the
  firing interval \<open>1 / rate\<close> is left as it is; a timer above it loses a whole number of
  intervals, \<open>\<lfloor>t / interval\<rfloor>\<close> of them; in both cases, which include the timer of 5
  times the interval, the timer after the frame is at least 0 and strictly below the
  interval. A timer exactly equal to the interval stays equal to it. The projectiles are
  untouched.
\<close>

theorem C6_idle_timer:
  assumes "\<not> (IsAlive pl \<and> IsKeyDown kb KEY_SPACE)"
    and "GetFireRate pl wt = Some rate"
    and "0 < rate"
    and "0 \<le> t"
  shows "shooting kb dt pl wt t ps =
           Some (if 1 / rate < t then t - (1 / rate) * real_of_int \<lfloor>t / (1 / rate)\<rfloor> else t, ps)
       \<and> (t = 1 / rate \<longrightarrow> shooting kb dt pl wt t ps = Some (1 / rate, ps))
       \<and> (t \<noteq> 1 / rate \<longrightarrow>
            (\<exists>t'. shooting kb dt pl wt t ps = Some (t', ps) \<and> 0 \<le> t' \<and> t' < 1 / rate))"
proof -
  let ?m = "1 / rate"
  have m: "0 < ?m" using assms(3) by simp
  have n: "(IsAlive pl \<and> IsKeyDown kb KEY_SPACE) = False" using assms(1) by simp
  have s: "shooting kb dt pl wt t ps = Some (if ?m < t then fmodf t ?m else t, ps)"
    using assms(2) assms(3) unfolding shooting_def n by (simp add: Let_def)
  have f: "fmodf t ?m = t - ?m * real_of_int \<lfloor>t / ?m\<rfloor>"
    using m assms(4) by (rule fmodf_floor)
  have e: "shooting kb dt pl wt t ps =
           Some (if ?m < t then t - ?m * real_of_int \<lfloor>t / ?m\<rfloor> else t, ps)"
    by (simp only: s f)
  have eq: "t = ?m \<longrightarrow> shooting kb dt pl wt t ps = Some (?m, ps)"
  proof
    assume "t = ?m"
    then have "\<not> ?m < t" by simp
    then have "shooting kb dt pl wt t ps = Some (t, ps)" by (simp only: s if_False)
    then show "shooting kb dt pl wt t ps = Some (?m, ps)" using \<open>t = ?m\<close> by simp
  qed
  have ne: "t \<noteq> ?m \<longrightarrow>
            (\<exists>t'. shooting kb dt pl wt t ps = Some (t', ps) \<and> 0 \<le> t' \<and> t' < ?m)"
  proof (cases "?m < t")
    case True
    have "0 \<le> fmodf t ?m \<and> fmodf t ?m < ?m" using m True by (rule fmodf_range)
    then show ?thesis using s True by simp
  next
    case False
    then show ?thesis using s assms(4) by auto
  qed
  from e eq ne show ?thesis by blast
qed

theorem C6_idle_timer_witness:
  "\<not> (IsAlive example_player \<and> IsKeyDown keys_none KEY_SPACE)
   \<and> GetFireRate example_player MINE = Some 2
   \<and> (0::real) < 2
   \<and> (0::real) \<le> 5 * (1 / 2)
   \<and> (5 * (1 / 2) :: real) \<noteq> 1 / 2
   \<and> shooting keys_none (1 / 60) example_player MINE (5 * (1 / 2)) [] = Some (0, [])
   \<and> (0::real) < 1 / 2"
proof -
  have h1: "\<not> (IsAlive example_player \<and> IsKeyDown keys_none KEY_SPACE)"
    by (simp add: keys_none_def)
  have h2: "GetFireRate example_player MINE = Some 2"
    by (simp add: GetFireRate_def example_player_def PlayerShip_ctor_def Ship_ctor_def
        Ship.extend_def)
  have h3: "(0::real) < 2" by simp
  have h4: "(0::real) \<le> 5 * (1 / 2)" by simp
  have "shooting keys_none (1 / 60) example_player MINE (5 * (1 / 2)) [] = Some (0, [])"
    using C6_idle_timer [OF h1 h2 h3 h4, of "1 / 60" "[]"] by simp
  with h1 h2 show ?thesis by simp
qed

text \<open>
  With the laser selected (interval 1/18) and a timer of exactly 1/18, the guard
  \<open>1/18 > 1/18\<close> of the idle branch is false and the timer stays 1/18.
\<close>

lemma idle_timer_stays_at_interval:
  "\<not> (IsAlive example_player \<and> IsKeyDown keys_none KEY_SPACE)
   \<and> GetFireRate example_player LASER = Some 18
   \<and> shooting keys_none (1 / 60) example_player LASER (1 / 18) [] = Some (1 / 18, [])
   \<and> \<not> ((1 / 18 :: real) < 1 / 18)"
  by (simp add: shooting_def keys_none_def GetFireRate_def example_player_def PlayerShip_ctor_def
      Ship_ctor_def Ship.extend_def)

section \<open>The firing loop\<close>

text \<open>
  For a positive interval the loop ends: it fires once for every whole interval contained
  in the timer, and leaves the remainder.
\<close>

lemma fire_loop_count:
  assumes i: "0 < i"
  shows "nat \<lfloor>t / i\<rfloor> = n \<Longrightarrow>
         fire_loop pl wt i sp t ps =
           Some (t - real n * i,
                 ps @ replicate n (MakeProjectile wt (fst (muzzle pl)) sp (snd (muzzle pl))))"
proof (induction n arbitrary: t ps)
  case 0
  then have "\<lfloor>t / i\<rfloor> \<le> 0" by simp
  then have "t / i < 1" by (simp add: floor_le_iff)
  then have "t < i" using i by (simp add: pos_divide_less_eq)
  then show ?case by (subst fire_loop.simps) simp
next
  case (Suc n)
  then have fl: "\<lfloor>t / i\<rfloor> = int n + 1" by linarith
  then have "(1::int) \<le> \<lfloor>t / i\<rfloor>" by simp
  then have "1 \<le> t / i" by (simp only: one_le_floor)
  then have ge: "i \<le> t" using i by (simp add: pos_le_divide_eq)
  have "(t - i) / i = t / i - 1" using i by (simp add: diff_divide_distrib)
  then have "nat \<lfloor>(t - i) / i\<rfloor> = n" using fl by simp
  then have "fire_loop pl wt i sp (t - i)
               (ps @ [MakeProjectile wt (fst (muzzle pl)) sp (snd (muzzle pl))]) =
             Some (t - i - real n * i,
               (ps @ [MakeProjectile wt (fst (muzzle pl)) sp (snd (muzzle pl))])
                 @ replicate n (MakeProjectile wt (fst (muzzle pl)) sp (snd (muzzle pl))))"
    by (rule Suc.IH)
  then show ?case using ge
    by (subst fire_loop.simps) (simp add: algebra_simps replicate_app_Cons_same)
qed


lemma shooting_fires:
  assumes "IsAlive pl" and "IsKeyDown kb KEY_SPACE"
    and "GetFireRate pl wt = Some rate" and "0 < rate"
  shows "shooting kb dt pl wt t ps =
           Some (t + dt - real (nat \<lfloor>(t + dt) / (1 / rate)\<rfloor>) * (1 / rate),
                 ps @ replicate (nat \<lfloor>(t + dt) / (1 / rate)\<rfloor>)
                        (MakeProjectile wt (fst (muzzle pl)) (GetSpacing pl wt * rate)
                           (snd (muzzle pl))))"
proof -
  have i: "0 < 1 / rate" using assms(4) by simp
  have "shooting kb dt pl wt t ps =
          fire_loop pl wt (1 / rate) (GetSpacing pl wt * rate) (t + dt) ps"
    using assms by (simp add: shooting_def Let_def)
  then show ?thesis by (simp only: fire_loop_count [OF i refl])
qed

lemma floor_remainder_range:
  assumes i: "0 < i" and t: "0 \<le> t"
  shows "0 \<le> t - real (nat \<lfloor>t / i\<rfloor>) * i \<and> t - real (nat \<lfloor>t / i\<rfloor>) * i < i"
proof -
  have q: "0 \<le> t / i" using i t by simp
  then have n: "real (nat \<lfloor>t / i\<rfloor>) = real_of_int \<lfloor>t / i\<rfloor>" by simp
  have lo: "real_of_int \<lfloor>t / i\<rfloor> \<le> t / i" by (rule of_int_floor_le)
  have hi: "t / i < real_of_int \<lfloor>t / i\<rfloor> + 1" by linarith
  have e: "(t / i) * i = t" using i by simp
  have "real_of_int \<lfloor>t / i\<rfloor> * i \<le> (t / i) * i"
    using lo i by (intro mult_right_mono) simp_all
  then have a: "real_of_int \<lfloor>t / i\<rfloor> * i \<le> t" by (simp only: e)
  have "(t / i) * i < (real_of_int \<lfloor>t / i\<rfloor> + 1) * i"
    using hi i by (intro mult_strict_right_mono) simp_all
  then have b: "t < (real_of_int \<lfloor>t / i\<rfloor> + 1) * i" by (simp only: e)
  show ?thesis using a b by (simp add: n algebra_simps)
qed

lemma shooting_frames_count:
  assumes "IsAlive pl" and "IsKeyDown kb KEY_SPACE"
    and "GetFireRate pl wt = Some rate" and "0 < rate"
  shows "\<forall>dt \<in> set dts. 0 \<le> dt \<Longrightarrow> 0 \<le> t \<Longrightarrow> t < 1 / rate \<Longrightarrow>
         shooting_frames kb pl wt dts t ps =
           Some (t + sum_list dts - real (nat \<lfloor>(t + sum_list dts) / (1 / rate)\<rfloor>) * (1 / rate),
                 ps @ replicate (nat \<lfloor>(t + sum_list dts) / (1 / rate)\<rfloor>)
                        (MakeProjectile wt (fst (muzzle pl)) (GetSpacing pl wt * rate)
                           (snd (muzzle pl))))"
proof (induction dts arbitrary: t ps)
  case Nil
  have "t / (1 / rate) < 1" using Nil(3) assms(4) by (simp add: field_simps)
  moreover have "0 \<le> t / (1 / rate)" using Nil(2) assms(4) by simp
  ultimately have "\<lfloor>t / (1 / rate)\<rfloor> = 0" by linarith
  then show ?case by simp
next
  case (Cons dt dts)
  let ?i = "1 / rate"
  let ?pr = "MakeProjectile wt (fst (muzzle pl)) (GetSpacing pl wt * rate) (snd (muzzle pl))"
  let ?n1 = "nat \<lfloor>(t + dt) / ?i\<rfloor>"
  let ?t' = "t + dt - real ?n1 * ?i"
  let ?S = "sum_list dts"
  have i: "0 < ?i" using assms(4) by simp
  have dt: "0 \<le> dt" and rest: "\<forall>d \<in> set dts. 0 \<le> d" using Cons.prems(1) by simp_all
  have t1: "0 \<le> t + dt" using Cons.prems(2) dt by simp
  have S: "0 \<le> ?S" using rest by (simp add: sum_list_nonneg)
  have r: "0 \<le> ?t' \<and> ?t' < ?i" using i t1 by (rule floor_remainder_range)
  have step: "shooting kb dt pl wt t ps = Some (?t', ps @ replicate ?n1 ?pr)"
    using assms by (rule shooting_fires)
  have ih: "shooting_frames kb pl wt dts ?t' (ps @ replicate ?n1 ?pr) =
           Some (?t' + ?S - real (nat \<lfloor>(?t' + ?S) / ?i\<rfloor>) * ?i,
                 (ps @ replicate ?n1 ?pr) @ replicate (nat \<lfloor>(?t' + ?S) / ?i\<rfloor>) ?pr)"
    using rest r by (intro Cons.IH) simp_all
  have q1: "0 \<le> (t + dt) / ?i" using t1 i by simp
  have n1: "real ?n1 = real_of_int \<lfloor>(t + dt) / ?i\<rfloor>" using q1 by simp
  have eq: "(?t' + ?S) / ?i = (t + dt + ?S) / ?i - real ?n1"
    using assms(4) by (simp add: field_simps)
  have "\<lfloor>(?t' + ?S) / ?i\<rfloor> = \<lfloor>(t + dt + ?S) / ?i - real_of_int \<lfloor>(t + dt) / ?i\<rfloor>\<rfloor>"
    by (simp only: eq) (simp only: n1)
  also have "\<dots> = \<lfloor>(t + dt + ?S) / ?i\<rfloor> - \<lfloor>(t + dt) / ?i\<rfloor>"
    by (rule floor_diff_of_int)
  finally have fl: "\<lfloor>(?t' + ?S) / ?i\<rfloor> = \<lfloor>(t + dt + ?S) / ?i\<rfloor> - \<lfloor>(t + dt) / ?i\<rfloor>" .

  have mono: "\<lfloor>(t + dt) / ?i\<rfloor> \<le> \<lfloor>(t + dt + ?S) / ?i\<rfloor>"
    using S i by (intro floor_mono divide_right_mono) simp_all
  have f0: "0 \<le> \<lfloor>(t + dt) / ?i\<rfloor>" using q1 by simp
  have cnt: "?n1 + nat \<lfloor>(?t' + ?S) / ?i\<rfloor> = nat \<lfloor>(t + dt + ?S) / ?i\<rfloor>"
    using fl mono f0 by linarith
  have tm: "?t' + ?S - real (nat \<lfloor>(?t' + ?S) / ?i\<rfloor>) * ?i
        = t + dt + ?S - real (nat \<lfloor>(t + dt + ?S) / ?i\<rfloor>) * ?i"
    by (simp only: cnt [symmetric] of_nat_add) (simp add: algebra_simps)
  have "shooting_frames kb pl wt (dt # dts) t ps =
          shooting_frames kb pl wt dts ?t' (ps @ replicate ?n1 ?pr)"
    by (simp only: shooting_frames.simps step option.case prod.case)
  also have "\<dots> = Some (t + dt + ?S - real (nat \<lfloor>(t + dt + ?S) / ?i\<rfloor>) * ?i,
                 ps @ replicate (nat \<lfloor>(t + dt + ?S) / ?i\<rfloor>) ?pr)"
    by (simp only: ih tm append_assoc replicate_add [symmetric] cnt)
  finally show ?case by (simp add: add.assoc)
qed

section \<open>Fire rates and spacings\<close>

text \<open>
  The constructor stores the literals 18, 12, 2 and 40, 20; neither \<open>Update\<close> nor
  \<open>TakeDamage\<close> writes to these fields.
\<close>

lemma fire_config_PlayerShip_ctor: "fire_config (PlayerShip_ctor w h tex) = (18, 12, 2, 40, 20)"
  by (simp add: fire_config_def PlayerShip_ctor_def Ship_ctor_def Ship.extend_def)

lemma fire_config_PlayerShip_Update: "fire_config (PlayerShip_Update kb dt s) = fire_config s"
  by (simp add: fire_config_def PlayerShip_Update_def Let_def move_y_def move_x_def turn_def)

lemma fire_config_Ship_TakeDamage: "fire_config (Ship_TakeDamage s dmg) = fire_config s"
  by (simp add: fire_config_def Ship_TakeDamage_def Let_def)

lemma fire_config_do_calls: "fire_config (do_calls cs s) = fire_config s"
proof (induction cs arbitrary: s)
  case Nil
  show ?case by simp
next
  case (Cons c cs)
  have "fire_config (do_call c s) = fire_config s"
    by (cases c) (simp_all add: fire_config_PlayerShip_Update fire_config_Ship_TakeDamage)
  then show ?case by (simp add: Cons.IH)
qed

lemma shooting_returns:
  assumes "GetFireRate pl wt = Some rate" and "0 < rate"
  shows "\<exists>r. shooting kb dt pl wt t ps = Some r"
proof (cases "IsAlive pl \<and> IsKeyDown kb KEY_SPACE")
  case True
  then show ?thesis using shooting_fires [of pl kb wt rate dt t ps] assms by simp
next
  case False
  then have n: "(IsAlive pl \<and> IsKeyDown kb KEY_SPACE) = False" by simp
  show ?thesis using assms unfolding shooting_def n by (simp add: Let_def)
qed

text \<open>
  So for each of the weapons LASER, BULLET and MINE, on a ship reached from the
  constructor by any calls, the fire rate is defined and positive, the spacing is
  positive, the interval \<open>1 / rate\<close> does not divide by zero, and the shooting block
  returns.
\<close>

lemma fire_rates_positive:
  assumes "wt \<noteq> COUNT"
  shows "\<exists>rate. GetFireRate (do_calls cs (PlayerShip_ctor w h tex)) wt = Some rate
           \<and> 0 < rate
           \<and> 0 < GetSpacing (do_calls cs (PlayerShip_ctor w h tex)) wt
           \<and> (\<exists>r. shooting kb dt (do_calls cs (PlayerShip_ctor w h tex)) wt t ps = Some r)"
proof -
  let ?s = "do_calls cs (PlayerShip_ctor w h tex)"
  have "fire_config ?s = (18, 12, 2, 40, 20)"
    by (simp only: fire_config_do_calls fire_config_PlayerShip_ctor)
  then have f: "fireRateLaser ?s = 18" "fireRateBullet ?s = 12" "fireRateMine ?s = 2"
    "spacingLaser ?s = 40" "spacingBullet ?s = 20"
    by (simp_all add: fire_config_def)
  obtain rate where r: "GetFireRate ?s wt = Some rate" "0 < rate"
    using assms f by (cases wt) (simp_all add: GetFireRate_def)
  have sp: "0 < GetSpacing ?s wt" using f by (simp add: GetSpacing_def)
  have "\<exists>r. shooting kb dt ?s wt t ps = Some r" using r by (rule shooting_returns)
  with r sp show ?thesis by blast
qed

text \<open>
  Claim C7 speaks of an assertion in the constructor and of a fatal error at start-up
  when a rate or spacing is not positive. The constructor takes no rate or spacing and
  has no failing path, and no method writes these fields: no input of the program
  reaches a ship that such an assertion would reject, so nothing the program computes
  tells a constructor that checks from one that does not. The claim is therefore not
  stated as a theorem; what holds of the code is the lemma above.
\<close>

section \<open>One laser shot\<close>

text \<open>
  Claim C8. A live player at (450, 450) holds the fire key with the laser selected, from
  a shot timer of 0, over frames whose times add up to exactly 1/18 second. Then exactly
  one projectile is added, and the timer is 0 again. The projectile has damage 17; its
  heading is the player's rotation minus 90 degrees, in radians; its velocity is the unit
  vector of that heading times 40 * 18 = 720; and it starts at the player's position
  moved by the player's radius along the heading.
\<close>

theorem C8_one_laser_shot:
  assumes "IsAlive pl" and "IsKeyDown kb KEY_SPACE"
    and "Ship_GetPosition pl = \<lparr>x = 450, y = 450\<rparr>"
    and "fireRateLaser pl = 18" and "spacingLaser pl = 40"
    and "\<forall>dt \<in> set dts. 0 \<le> dt" and "sum_list dts = 1 / 18"
  shows "shooting_frames kb pl LASER dts 0 ps =
           Some (0, ps @
             [\<lparr>Projectile.transform =
                 \<lparr>position =
                    \<lparr>x = 450 + cos ((GetAngle pl - 90) * (pi / 180)) * PlayerShip_GetRadius pl,
                     y = 450 + sin ((GetAngle pl - 90) * (pi / 180)) * PlayerShip_GetRadius pl\<rparr>,
                  rotation = (GetAngle pl - 90) * (pi / 180)\<rparr>,
               Projectile.physics =
                 \<lparr>velocity = \<lparr>x = cos ((GetAngle pl - 90) * (pi / 180)) * (40 * 18),
                               y = sin ((GetAngle pl - 90) * (pi / 180)) * (40 * 18)\<rparr>,
                  rotationSpeed = 0\<rparr>,
               Projectile.baseDamage = 17,
               Projectile.type = LASER,
               Projectile.life = 10\<rparr>])"
proof -
  have r: "GetFireRate pl LASER = Some 18" using assms(4) by (simp add: GetFireRate_def)
  have c: "shooting_frames kb pl LASER dts 0 ps =
           Some (0 + sum_list dts - real (nat \<lfloor>(0 + sum_list dts) / (1 / 18)\<rfloor>) * (1 / 18),
                 ps @ replicate (nat \<lfloor>(0 + sum_list dts) / (1 / 18)\<rfloor>)
                        (MakeProjectile LASER (fst (muzzle pl)) (GetSpacing pl LASER * 18)
                           (snd (muzzle pl))))"
    using assms(1) assms(2) r _ assms(6) by (rule shooting_frames_count) simp_all
  have n: "nat \<lfloor>(0 + sum_list dts) / (1 / 18 :: real)\<rfloor> = 1"
    by (simp add: assms(7))
  have m: "MakeProjectile LASER (fst (muzzle pl)) (GetSpacing pl LASER * 18) (snd (muzzle pl)) =
             \<lparr>Projectile.transform =
                 \<lparr>position =
                    \<lparr>x = 450 + cos ((GetAngle pl - 90) * (pi / 180)) * PlayerShip_GetRadius pl,
                     y = 450 + sin ((GetAngle pl - 90) * (pi / 180)) * PlayerShip_GetRadius pl\<rparr>,
                  rotation = (GetAngle pl - 90) * (pi / 180)\<rparr>,
               Projectile.physics =
                 \<lparr>velocity = \<lparr>x = cos ((GetAngle pl - 90) * (pi / 180)) * (40 * 18),
                               y = sin ((GetAngle pl - 90) * (pi / 180)) * (40 * 18)\<rparr>,
                  rotationSpeed = 0\<rparr>,
               Projectile.baseDamage = 17,
               Projectile.type = LASER,
               Projectile.life = 10\<rparr>"
    by (simp add: MakeProjectile_def Projectile_ctor_def muzzle_def Let_def GetSpacing_def
        assms(3) assms(5))
  show ?thesis
    unfolding c n m by (simp add: assms(7))
qed

theorem C8_one_laser_shot_witness:
  "IsAlive example_player \<and> IsKeyDown keys_fire KEY_SPACE
   \<and> Ship_GetPosition example_player = \<lparr>x = 450, y = 450\<rparr>
   \<and> fireRateLaser example_player = 18 \<and> spacingLaser example_player = 40
   \<and> (0::real) \<le> 1 / 36 \<and> sum_list [1 / 36, 1 / 36] = (1 / 18 :: real)
   \<and> shooting_frames keys_fire example_player LASER [1 / 36, 1 / 36] 0 [] =
        Some (0, [\<lparr>Projectile.transform =
                     \<lparr>position = \<lparr>x = 450, y = 434\<rparr>, rotation = - (pi / 2)\<rparr>,
                   Projectile.physics =
                     \<lparr>velocity = \<lparr>x = 0, y = - 720\<rparr>, rotationSpeed = 0\<rparr>,
                   Projectile.baseDamage = 17,
                   Projectile.type = LASER,
                   Projectile.life = 10\<rparr>])"
proof -
  have h1: "IsAlive example_player"
    and h3: "Ship_GetPosition example_player = \<lparr>x = 450, y = 450\<rparr>"
    and h4: "fireRateLaser example_player = 18"
    and h5: "spacingLaser example_player = 40"
    and g: "GetAngle example_player = 0" "PlayerShip_GetRadius example_player = 16"
    by (simp_all add: example_player_def PlayerShip_ctor_def Ship_ctor_def Ship.extend_def
        PlayerShip.fields_def example_texture_def IsAlive_def Ship_GetPosition_def
        GetAngle_def PlayerShip_GetRadius_def)
  have h2: "IsKeyDown keys_fire KEY_SPACE" by (simp add: keys_fire_def)
  have h6: "\<forall>dt \<in> set [1 / 36, 1 / 36]. (0::real) \<le> dt" by simp
  have h7: "sum_list [1 / 36, 1 / 36] = (1 / 18 :: real)" by simp
  have a: "(0 - 90) * (pi / 180) = - (pi / 2)" by simp
  show ?thesis
    using h1 h2 h3 h4 h5 h6 h7 C8_one_laser_shot [OF h1 h2 h3 h4 h5 h6 h7, of "[]"]
    by (simp add: g a)
qed

section \<open>The frame loop on the states it reaches\<close>

lemma weapon_switch_not_COUNT: "wt \<noteq> COUNT \<Longrightarrow> weapon_switch kb wt \<noteq> COUNT"
  by (cases wt) (simp_all add: weapon_switch_def WeaponType_cast_def)

lemma typed_MakeProjectile: "wt \<noteq> COUNT \<Longrightarrow> typed (MakeProjectile wt pos sp rot)"
  by (simp add: typed_def MakeProjectile_def Projectile_ctor_def Let_def)

lemma typed_Projectile_Update: "typed (fst (Projectile_Update rnd dt p)) = typed p"
  by (simp add: typed_def Projectile_Update_def Let_def)

lemma typed_update_projectiles:
  "list_all typed ps \<Longrightarrow> list_all typed (update_projectiles rnd dt ps)"
  by (induction ps) (simp_all add: typed_Projectile_Update)

lemma scan_asteroids_typed:
  "typed p \<Longrightarrow> \<exists>r. scan_asteroids p as = Some r"
proof (induction as)
  case Nil
  show ?case by simp
next
  case (Cons a as)
  then obtain r where r: "scan_asteroids p as = Some r" by blast
  obtain rp where rp: "Projectile_GetRadius p = Some rp"
    using Cons.prems by (cases "Projectile.type p") (simp_all add: typed_def Projectile_GetRadius_def)
  show ?case by (cases r) (simp_all add: r rp Let_def)
qed

lemma collision_pass_A_typed:
  "list_all typed ps \<Longrightarrow>
     \<exists>ps' as'. collision_pass_A ps as = Some (ps', as') \<and> list_all typed ps'"
proof (induction ps arbitrary: as)
  case Nil
  show ?case by simp
next
  case (Cons p ps)
  then have p: "typed p" and ps: "list_all typed ps" by simp_all
  obtain r where r: "scan_asteroids p as = Some r" using scan_asteroids_typed [OF p] by blast
  show ?case
  proof (cases r)
    case NoHit
    obtain ps' as' where "collision_pass_A ps as = Some (ps', as')" "list_all typed ps'"
      using Cons.IH [OF ps] by blast
    then show ?thesis using r NoHit p by simp
  next
    case (Hit as1)
    obtain ps' as' where "collision_pass_A ps as1 = Some (ps', as')" "list_all typed ps'"
      using Cons.IH [OF ps] by blast
    then show ?thesis using r Hit by simp
  qed
qed

lemma fire_config_remove_collision:
  "fire_config (fst (remove_collision rnd dt pl a)) = fire_config pl"
  by (simp add: remove_collision_def fire_config_Ship_TakeDamage)

lemma fst_collision_pass_B_Cons:
  "fst (collision_pass_B rnd dt pl (a # as)) =
     fst (collision_pass_B rnd dt (fst (remove_collision rnd dt pl a)) as)"
  by (simp split: prod.splits)

lemma fire_config_collision_pass_B:
  "fire_config (fst (collision_pass_B rnd dt pl as)) = fire_config pl"
proof (induction as arbitrary: pl)
  case Nil
  show ?case by simp
next
  case (Cons a as)
  show ?case
    by (simp only: fst_collision_pass_B_Cons Cons.IH fire_config_remove_collision)
qed

lemma dead_collision_pass_B:
  "\<not> alive pl \<Longrightarrow> fst (collision_pass_B rnd dt pl as) = pl"
  by (induction as) (auto simp add: remove_collision_def IsAlive_def split: prod.splits)

lemma idle_timer_range:
  assumes "\<not> (IsAlive pl \<and> IsKeyDown kb KEY_SPACE)"
    and "GetFireRate pl wt = Some rate" and "0 < rate" and "0 \<le> t"
  shows "\<exists>t'. shooting kb dt pl wt t ps = Some (t', ps) \<and> 0 \<le> t' \<and> t' \<le> 1 / rate"
proof -
  let ?m = "1 / rate"
  have m: "0 < ?m" using assms(3) by simp
  have n: "(IsAlive pl \<and> IsKeyDown kb KEY_SPACE) = False" using assms(1) by simp
  have s: "shooting kb dt pl wt t ps = Some (if t > ?m then fmodf t ?m else t, ps)"
    using assms(2) assms(3) unfolding shooting_def n by (simp add: Let_def)
  show ?thesis
  proof (cases "t > ?m")
    case True
    have "0 \<le> fmodf t ?m \<and> fmodf t ?m < ?m" using m True by (rule fmodf_range)
    then show ?thesis using s True by auto
  next
    case False
    then show ?thesis using s assms(4) by auto
  qed
qed

lemma shooting_well_formed:
  assumes "GetFireRate pl wt = Some rate" and "0 < rate" and "wt \<noteq> COUNT"
    and "0 \<le> t" and "0 \<le> dt" and "list_all typed ps"
  shows "\<exists>t' ps'. shooting kb dt pl wt t ps = Some (t', ps') \<and> 0 \<le> t' \<and> list_all typed ps'"
proof (cases "IsAlive pl \<and> IsKeyDown kb KEY_SPACE")
  case True
  have i: "0 < 1 / rate" using assms(2) by simp
  have t1: "0 \<le> t + dt" using assms(4) assms(5) by simp
  have r: "0 \<le> t + dt - real (nat \<lfloor>(t + dt) / (1 / rate)\<rfloor>) * (1 / rate)"
    using floor_remainder_range [OF i t1] by simp
  let ?pr = "MakeProjectile wt (fst (muzzle pl)) (GetSpacing pl wt * rate) (snd (muzzle pl))"
  have "list_all typed (ps @ replicate (nat \<lfloor>(t + dt) / (1 / rate)\<rfloor>) ?pr)"
    using assms(6) typed_MakeProjectile [OF assms(3)] by (auto simp add: list_all_iff)
  then show ?thesis
    using shooting_fires [of pl kb wt rate dt t ps] True assms(1) assms(2) r by blast
next
  case False
  then show ?thesis
    using idle_timer_range [OF False assms(1) assms(2) assms(4), of dt ps] assms(6) by auto
qed


lemma well_formed_restart_logic:
  "well_formed app \<Longrightarrow> well_formed (restart_logic rm inp app)"
  by (simp add: well_formed_def restart_logic_def fire_config_PlayerShip_ctor)

lemma well_formed_spawn_asteroids:
  "well_formed app \<Longrightarrow> well_formed (spawn_asteroids rm inp app)"
  by (simp add: well_formed_def spawn_asteroids_def)

lemma well_formed_collisions:
  assumes "well_formed app"
  shows "\<exists>app'. collisions rnd dt app = Some app' \<and> well_formed app'"
proof -
  have ty: "list_all typed (projectiles app)" using assms by (simp add: well_formed_def)
  obtain ps as where a: "collision_pass_A (projectiles app) (asteroids app) = Some (ps, as)"
    and ps: "list_all typed ps"
    using collision_pass_A_typed [OF ty] by blast
  obtain pl as' where b: "collision_pass_B rnd dt (player app) as = (pl, as')"
    by (cases "collision_pass_B rnd dt (player app) as") auto
  have "fire_config pl = fire_config (player app)"
    using fire_config_collision_pass_B [of rnd dt "player app" as] b by simp
  then have "well_formed (app\<lparr>projectiles := ps, asteroids := as', player := pl\<rparr>)"
    using assms ps by (simp add: well_formed_def)
  then show ?thesis by (simp add: collisions_def a b)
qed

lemma GetFireRate_well_formed:
  assumes "fire_config pl = (18, 12, 2, 40, 20)" and "wt \<noteq> COUNT"
  shows "\<exists>rate. GetFireRate pl wt = Some rate \<and> 0 < rate"
  using assms by (cases wt) (simp_all add: fire_config_def GetFireRate_def)

text \<open>
  On the states the program reaches, a frame always has a result: the laser, bullet and
  mine rates are positive, the weapon and projectile types are never \<open>COUNT\<close>, and the
  shot timer is never negative.
\<close>

lemma frame_well_formed:
  assumes wf: "well_formed app" and dt: "0 \<le> frame_dt inp"
  shows "\<exists>app'. frame rm rnd inp app = Some app' \<and> well_formed app'"
proof -
  let ?dt = "frame_dt inp" and ?kb = "keyboard inp"
  let ?app1 = "app\<lparr>spawnTimer := spawnTimer app + ?dt\<rparr>"
  let ?app2 = "?app1\<lparr>player := PlayerShip_Update ?kb ?dt (player ?app1)\<rparr>"
  let ?app3 = "restart_logic rm inp ?app2"
  let ?app4 = "?app3\<lparr>currentShape := shape_switch ?kb (currentShape ?app3)\<rparr>"
  let ?app5 = "?app4\<lparr>currentWeapon := weapon_switch ?kb (currentWeapon ?app4)\<rparr>"
  have "well_formed ?app2"
    using wf by (simp add: well_formed_def fire_config_PlayerShip_Update)
  then have "well_formed ?app3" by (rule well_formed_restart_logic)
  then have w5: "well_formed ?app5"
    by (simp add: well_formed_def weapon_switch_not_COUNT)
  then obtain rate where r: "GetFireRate (player ?app5) (currentWeapon ?app5) = Some rate"
      "0 < rate"
    using GetFireRate_well_formed [of "player ?app5" "currentWeapon ?app5"]
    by (auto simp add: well_formed_def)
  have "\<exists>t' ps'. shooting ?kb ?dt (player ?app5) (currentWeapon ?app5) (shotTimer ?app5)
                    (projectiles ?app5) = Some (t', ps') \<and> 0 \<le> t' \<and> list_all typed ps'"
    using r w5 dt by (intro shooting_well_formed) (simp_all add: well_formed_def)
  then obtain t' ps' where
    s: "shooting ?kb ?dt (player ?app5) (currentWeapon ?app5) (shotTimer ?app5)
          (projectiles ?app5) = Some (t', ps')"
    and t': "0 \<le> t'" and ps': "list_all typed ps'"
    by blast
  let ?app6 = "?app5\<lparr>shotTimer := t', projectiles := ps'\<rparr>"
  let ?app7 = "spawn_asteroids rm inp ?app6"
  let ?app8 = "?app7\<lparr>projectiles := update_projectiles rnd ?dt (projectiles ?app7)\<rparr>"
  have "well_formed ?app6" using w5 t' ps' by (simp add: well_formed_def)
  then have w7: "well_formed ?app7" by (rule well_formed_spawn_asteroids)
  then have "well_formed ?app8"
    by (simp add: well_formed_def typed_update_projectiles)
  then have "\<exists>app'. collisions rnd ?dt ?app8 = Some app' \<and> well_formed app'"
    by (rule well_formed_collisions)
  moreover have "frame rm rnd inp app = collisions rnd ?dt ?app8"
    unfolding frame_def Let_def s by simp
  ultimately show ?thesis by simp
qed

text \<open>A dead player stays dead through a frame in which R is not pressed.\<close>

lemma frame_keeps_dead:
  assumes "frame rm rnd inp app = Some app'"
    and "\<not> alive (player app)" and "\<not> IsKeyPressed (keyboard inp) KEY_R"
  shows "\<not> alive (player app')"
proof -
  let ?dt = "frame_dt inp" and ?kb = "keyboard inp"
  let ?app1 = "app\<lparr>spawnTimer := spawnTimer app + ?dt\<rparr>"
  let ?app2 = "?app1\<lparr>player := PlayerShip_Update ?kb ?dt (player ?app1)\<rparr>"
  let ?app3 = "restart_logic rm inp ?app2"
  let ?app4 = "?app3\<lparr>currentShape := shape_switch ?kb (currentShape ?app3)\<rparr>"
  let ?app5 = "?app4\<lparr>currentWeapon := weapon_switch ?kb (currentWeapon ?app4)\<rparr>"
  have d2: "\<not> alive (player ?app2)" using assms(2) by (simp add: alive_PlayerShip_Update)
  have "?app3 = ?app2" using assms(3) by (simp add: restart_logic_def)
  then have d5: "\<not> alive (player ?app5)" using d2 by simp
  obtain t' ps' where
    s: "shooting ?kb ?dt (player ?app5) (currentWeapon ?app5) (shotTimer ?app5)
          (projectiles ?app5) = Some (t', ps')"
    using assms(1) unfolding frame_def Let_def by (auto split: option.splits)
  let ?app6 = "?app5\<lparr>shotTimer := t', projectiles := ps'\<rparr>"
  let ?app7 = "spawn_asteroids rm inp ?app6"
  let ?app8 = "?app7\<lparr>projectiles := update_projectiles rnd ?dt (projectiles ?app7)\<rparr>"
  have f: "collisions rnd ?dt ?app8 = Some app'"
    using assms(1) unfolding frame_def Let_def s by simp
  have p8: "player ?app8 = player ?app5" by (simp add: spawn_asteroids_def)
  obtain ps as where "collision_pass_A (projectiles ?app8) (asteroids ?app8) = Some (ps, as)"
    and "player app' = fst (collision_pass_B rnd ?dt (player ?app8) as)"
    using f by (auto simp add: collisions_def split: option.splits prod.splits)
  then have "player app' = player ?app8"
    using d5 p8 dead_collision_pass_B [of "player ?app8" rnd ?dt as] by simp
  then show ?thesis using d5 p8 by simp
qed


lemma well_formed_Run_start: "well_formed (Run_start rm w h tex r)"
  by (simp add: well_formed_def Run_start_def fire_config_PlayerShip_ctor)

lemma run_frames_well_formed:
  "well_formed app \<Longrightarrow> list_all (\<lambda>inp. 0 \<le> frame_dt inp) inps \<Longrightarrow>
     \<exists>app'. run_frames rm rnd inps app = Some app' \<and> well_formed app'"
proof (induction inps arbitrary: app)
  case Nil
  then show ?case by simp
next
  case (Cons inp inps)
  then obtain app1 where f: "frame rm rnd inp app = Some app1" and w: "well_formed app1"
    using frame_well_formed [of app inp rm rnd] by auto
  show ?case using Cons.IH [OF w] Cons.prems(2) by (simp add: f)
qed

section \<open>A run that leaves the shot timer at the interval\<close>

lemma PlayerShip_Update_no_keys:
  "alive s \<Longrightarrow> \<not> IsKeyDown kb KEY_W \<Longrightarrow> \<not> IsKeyDown kb KEY_S \<Longrightarrow> \<not> IsKeyDown kb KEY_A \<Longrightarrow>
   \<not> IsKeyDown kb KEY_D \<Longrightarrow> \<not> IsKeyDown kb KEY_Q \<Longrightarrow> \<not> IsKeyDown kb KEY_E \<Longrightarrow>
   PlayerShip_Update kb dt s = s"
  by (simp add: PlayerShip_Update_def Let_def)

lemmas frame_eval =
  frame_def Let_def Run_start_def slow_frame_def example_input_def keys_tab_fire_def
  keys_tab_def keys_none_def
  PlayerShip_Update_no_keys alive_PlayerShip_ctor restart_logic_def IsAlive_def
  shape_switch_def weapon_switch_def WeaponType_cast_def shooting_def GetFireRate_def
  fire_loop.simps spawn_asteroids_def RandomFloat_def C_SPAWN_MIN_def C_SPAWN_MAX_def
  collisions_def PlayerShip_ctor_def Ship_ctor_def Ship.extend_def

text \<open>
  A shot timer equal to the firing interval of the selected weapon is reached in play:
  switch to the bullet and hold fire for one frame of 1/18 s (no shot yet, the bullet
  interval being 1/12 s), then release and switch on through the mine to the laser, whose
  interval is 1/18 s. The idle frames that follow leave the timer at 1/18.
\<close>

lemma timer_equal_to_interval_is_reached:
  "run_frames 32767 example_renderer
     [slow_frame keys_tab_fire, slow_frame keys_tab, slow_frame keys_tab, slow_frame keys_none]
     (Run_start 32767 900 900 example_texture 32767)
   = Some ((Run_start 32767 900 900 example_texture 32767)
        \<lparr>spawnTimer := 2 / 9, currentWeapon := LASER, shotTimer := 1 / 18\<rparr>)"
proof -
  let ?s0 = "Run_start 32767 900 900 example_texture 32767"
  have f1: "frame 32767 example_renderer (slow_frame keys_tab_fire) ?s0
      = Some (?s0\<lparr>spawnTimer := 1 / 18, currentWeapon := BULLET, shotTimer := 1 / 18\<rparr>)"
    by (simp add: frame_eval)
  have f2: "frame 32767 example_renderer (slow_frame keys_tab)
        (?s0\<lparr>spawnTimer := 1 / 18, currentWeapon := BULLET, shotTimer := 1 / 18\<rparr>)
      = Some (?s0\<lparr>spawnTimer := 1 / 9, currentWeapon := MINE, shotTimer := 1 / 18\<rparr>)"
    by (simp add: frame_eval)
  have f3: "frame 32767 example_renderer (slow_frame keys_tab)
        (?s0\<lparr>spawnTimer := 1 / 9, currentWeapon := MINE, shotTimer := 1 / 18\<rparr>)
      = Some (?s0\<lparr>spawnTimer := 1 / 6, currentWeapon := LASER, shotTimer := 1 / 18\<rparr>)"
    by (simp add: frame_eval)
  have f4: "frame 32767 example_renderer (slow_frame keys_none)
        (?s0\<lparr>spawnTimer := 1 / 6, currentWeapon := LASER, shotTimer := 1 / 18\<rparr>)
      = Some (?s0\<lparr>spawnTimer := 2 / 9, currentWeapon := LASER, shotTimer := 1 / 18\<rparr>)"
    by (simp add: frame_eval)
  show ?thesis
    by (simp only: run_frames.simps f1 f2 f3 f4 option.case)
qed

text \<open>
  Claim C6 as stated asks for a timer strictly below the firing interval after every
  idle frame. In the run above the last frame is idle, with the laser selected: the guard
  \<open>shotTimer > maxInterval\<close> is \<open>1/18 > 1/18\<close>, the timer is not reduced, and after the
  frame it equals the laser's interval 1/18.
\<close>

theorem C6_interval_stays_counterexample:
  "run_frames 32767 example_renderer
     [slow_frame keys_tab_fire, slow_frame keys_tab, slow_frame keys_tab, slow_frame keys_none]
     (Run_start 32767 900 900 example_texture 32767)
   = Some ((Run_start 32767 900 900 example_texture 32767)
        \<lparr>spawnTimer := 2 / 9, currentWeapon := LASER, shotTimer := 1 / 18\<rparr>)
   \<and> \<not> IsKeyDown (keyboard (slow_frame keys_none)) KEY_SPACE
   \<and> GetFireRate (player ((Run_start 32767 900 900 example_texture 32767)
        \<lparr>spawnTimer := 2 / 9, currentWeapon := LASER, shotTimer := 1 / 18\<rparr>)) LASER = Some 18
   \<and> \<not> shotTimer ((Run_start 32767 900 900 example_texture 32767)
        \<lparr>spawnTimer := 2 / 9, currentWeapon := LASER, shotTimer := 1 / 18\<rparr>) < 1 / 18"
  using timer_equal_to_interval_is_reached
  by (simp add: slow_frame_def example_input_def keys_none_def GetFireRate_def Run_start_def
      PlayerShip_ctor_def Ship_ctor_def Ship.extend_def)

end
